theory Spec2Isabelle
  imports Main
begin

section \<open>Python values, exceptions and dictionaries\<close>

text \<open>
  The values that travel through the converter: the keyword arguments of a form field
  (label, description, default, validators, filters, widget, ...) and the values a
  submitted form hands to a coercion function.
\<close>

datatype validator = Optional | Length int | Email | IPAddress | URL | UserValidator string

datatype filter_fn = TimeOnly | DateOnly | UserFilter string

datatype widget = ChosenSelectWidget | DateTimePickerWidget | DatePickerWidget | UserWidget string

datatype pyval =
    PyNone
  | PyBool bool
  | PyInt int
  | PyStr string
  | PyList "pyval list"
  | PyTuple "pyval list"
  | PyValidator validator
  | PyFilter filter_fn
  | PyWidget widget
  | PyModel string
  | PyFunc string

datatype error = TypeError | AttributeError | KeyError | NameError | ValueError | InvalidId

text \<open>
  A Python dict with string keys, as an association list in insertion order.
  \<open>d[k] = v\<close> replaces the value of a key that is present and appends a new key;
  \<open>d.update(e)\<close> stores the items of \<open>e\<close> one after the other.
\<close>

type_synonym 'v dict = "(string \<times> 'v) list"

fun dict_set :: "string \<Rightarrow> 'v \<Rightarrow> 'v dict \<Rightarrow> 'v dict" where
  "dict_set k v [] = [(k, v)]"
| "dict_set k v ((k', v') # d) =
     (if k = k' then (k, v) # d else (k', v') # dict_set k v d)"

definition dict_get :: "'v dict \<Rightarrow> string \<Rightarrow> 'v option" where
  "dict_get d k = map_of d k"

definition keys :: "'v dict \<Rightarrow> string list" where
  "keys d = map fst d"

fun dict_update :: "'v dict \<Rightarrow> 'v dict \<Rightarrow> 'v dict" where
  "dict_update d [] = d"
| "dict_update d ((k, v) # e) = dict_update (dict_set k v d) e"

text \<open>\<open>kwargs[key].append(v)\<close>: only a list has \<open>append\<close>.\<close>

definition append_to :: "string \<Rightarrow> pyval \<Rightarrow> pyval dict \<Rightarrow> error + pyval dict" where
  "append_to key v kwargs =
     (case dict_get kwargs key of
        None \<Rightarrow> Inl KeyError
      | Some (PyList xs) \<Rightarrow> Inr (dict_set key (PyList (xs @ [v])) kwargs)
      | Some _ \<Rightarrow> Inl AttributeError)"

section \<open>Native models and form fields\<close>

text \<open>
  A Django model field as \<open>convert\<close> reads it: \<open>ftype\<close> is \<open>type(field).__name__\<close>,
  \<open>rel_to\<close> is \<open>field.rel.to\<close> where the field has a relation.
\<close>

record field =
  name :: string
  ftype :: string
  verbose_name :: string
  help_text :: string
  default_val :: pyval
  blank :: bool
  max_length :: "int option"
  choices :: "(pyval \<times> string) list"
  rel_to :: "string option"

text \<open>\<open>model._meta\<close>: the declared fields in order, the type name and the primary key's name.\<close>

record model =
  object_name :: string
  meta_fields :: "field list"
  pk_name :: string

datatype form_field =
    IntegerField | DecimalField | FileField | BooleanField | StringField | TextAreaField
  | SelectField | DateTimeField | DateField | ModelSelectField

text \<open>
  A wtforms field built outside a form is an unbound field: the field class and the
  keyword arguments of the call.
\<close>

record unbound_field =
  field_class :: form_field
  kwargs :: "pyval dict"

text \<open>
  \<open>cls(k1=v1, ..., **kwargs)\<close>: Python refuses a keyword that is given both explicitly
  and through \<open>**kwargs\<close> with a TypeError, before the callee runs.
\<close>

definition call_field :: "form_field \<Rightarrow> pyval dict \<Rightarrow> pyval dict \<Rightarrow> error + unbound_field option" where
  "call_field cls explicit kw =
     (if list_ex (\<lambda>k. k \<in> set (keys kw)) (keys explicit) then Inl TypeError
      else Inr (Some \<lparr>field_class = cls, kwargs = explicit @ kw\<rparr>))"

type_synonym converter_fn = "model \<Rightarrow> field \<Rightarrow> pyval dict \<Rightarrow> error + unbound_field option"

text \<open>
  A converter object: the \<open>converters\<close> table of the base class, and the methods
  \<open>conv_<Name>\<close> that \<open>getattr\<close> finds on the object.
\<close>

record model_converter =
  converters :: "converter_fn dict"
  conv_methods :: "string \<Rightarrow> converter_fn option"

definition choices_val :: "(pyval \<times> string) list \<Rightarrow> pyval" where
  "choices_val cs = PyList (map (\<lambda>(v, l). PyTuple [v, PyStr l]) cs)"

definition base_kwargs :: "field \<Rightarrow> pyval dict" where
  "base_kwargs fld =
     [(''label'', PyStr (verbose_name fld)),
      (''description'', PyStr (help_text fld)),
      (''validators'', PyList []),
      (''filters'', PyList []),
      (''default'', default_val fld)]"

definition with_field_args :: "pyval dict \<Rightarrow> pyval dict option \<Rightarrow> pyval dict" where
  "with_field_args kw field_args =
     (case field_args of
        None \<Rightarrow> kw
      | Some fa \<Rightarrow> if fa \<noteq> [] then dict_update kw fa else kw)"

definition add_optional :: "field \<Rightarrow> pyval dict \<Rightarrow> error + pyval dict" where
  "add_optional fld kw =
     (if blank fld then append_to ''validators'' (PyValidator Optional) kw else Inr kw)"

definition add_length :: "field \<Rightarrow> pyval dict \<Rightarrow> error + pyval dict" where
  "add_length fld kw =
     (case max_length fld of
        None \<Rightarrow> Inr kw
      | Some n \<Rightarrow>
          if n > 0 then append_to ''validators'' (PyValidator (Length n)) kw else Inr kw)"

definition dispatch :: "model_converter \<Rightarrow> model \<Rightarrow> field \<Rightarrow> pyval dict \<Rightarrow> error + unbound_field option" where
  "dispatch cv m fld kw =
     (if choices fld \<noteq> [] then
        call_field SelectField [(''widget'', PyWidget ChosenSelectWidget)]
          (dict_set ''choices'' (choices_val (choices fld)) kw)
      else
        (case dict_get (converters cv) (ftype fld) of
           Some c \<Rightarrow> c m fld kw
         | None \<Rightarrow>
             (case conv_methods cv (ftype fld) of
                Some c \<Rightarrow> c m fld kw
              | None \<Rightarrow> Inr None)))"

definition convert :: "model_converter \<Rightarrow> model \<Rightarrow> field \<Rightarrow> pyval dict option \<Rightarrow> error + unbound_field option" where
  "convert cv m fld field_args =
     (case add_optional fld (with_field_args (base_kwargs fld) field_args) of
        Inl e \<Rightarrow> Inl e
      | Inr kw1 \<Rightarrow>
          (case add_length fld kw1 of
             Inl e \<Rightarrow> Inl e
           | Inr kw2 \<Rightarrow> dispatch cv m fld kw2))"

subsection \<open>The admin converter\<close>

definition make_simple_converter :: "form_field \<Rightarrow> converter_fn" where
  "make_simple_converter field_type = (\<lambda>m fld kw. call_field field_type [] kw)"

definition DEFAULT_SIMPLE_CONVERSIONS :: "(form_field \<times> string list) list" where
  "DEFAULT_SIMPLE_CONVERSIONS =
     [(IntegerField, [''AutoField'', ''IntegerField'', ''SmallIntegerField'',
                      ''PositiveIntegerField'', ''PositiveSmallIntegerField'']),
      (DecimalField, [''DecimalField'', ''FloatField'']),
      (FileField, [''FileField'', ''FilePathField'', ''ImageField'']),
      (BooleanField, [''BooleanField'']),
      (StringField, [''CharField'', ''PhoneNumberField'', ''SlugField'']),
      (TextAreaField, [''StringField'', ''XMLField''])]"

definition conv_ForeignKey :: converter_fn where
  "conv_ForeignKey m fld kw =
     (case rel_to fld of
        None \<Rightarrow> Inl AttributeError
      | Some t \<Rightarrow>
          call_field ModelSelectField
            [(''widget'', PyWidget ChosenSelectWidget), (''model'', PyModel t)] kw)"

definition conv_TimeField :: converter_fn where
  "conv_TimeField m fld kw =
     (case append_to ''filters'' (PyFilter TimeOnly) kw of
        Inl e \<Rightarrow> Inl e
      | Inr kw' \<Rightarrow>
          call_field DateTimeField
            [(''widget'', PyWidget DateTimePickerWidget), (''format'', PyStr ''%H:%M:%S'')] kw')"

definition conv_DateTimeField :: converter_fn where
  "conv_DateTimeField m fld kw =
     (case append_to ''filters'' (PyFilter TimeOnly) kw of
        Inl e \<Rightarrow> Inl e
      | Inr kw' \<Rightarrow>
          call_field DateTimeField
            [(''widget'', PyWidget DateTimePickerWidget), (''format'', PyStr ''%H:%M:%S'')] kw')"

definition conv_DateField :: converter_fn where
  "conv_DateField m fld kw =
     (case append_to ''filters'' (PyFilter DateOnly) kw of
        Inl e \<Rightarrow> Inl e
      | Inr kw' \<Rightarrow> call_field DateField [(''widget'', PyWidget DatePickerWidget)] kw')"

definition conv_EmailField :: converter_fn where
  "conv_EmailField m fld kw =
     (case append_to ''validators'' (PyValidator Email) kw of
        Inl e \<Rightarrow> Inl e
      | Inr kw' \<Rightarrow> call_field StringField [] kw')"

definition conv_IPAddressField :: converter_fn where
  "conv_IPAddressField m fld kw =
     (case append_to ''validators'' (PyValidator IPAddress) kw of
        Inl e \<Rightarrow> Inl e
      | Inr kw' \<Rightarrow> call_field StringField [] kw')"

definition conv_URLField :: converter_fn where
  "conv_URLField m fld kw =
     (case append_to ''validators'' (PyValidator URL) kw of
        Inl e \<Rightarrow> Inl e
      | Inr kw' \<Rightarrow> call_field StringField [] kw')"

text \<open>
  \<open>STATE_CHOICES\<close> comes from an import that may fail: \<open>us_states\<close> is \<open>None\<close> when
  the module is not installed, and the choice list is then empty.
\<close>

definition conv_USStateField :: "(pyval \<times> string) list option \<Rightarrow> converter_fn" where
  "conv_USStateField us_states m fld kw =
     (let STATE_CHOICES = (case us_states of None \<Rightarrow> [] | Some cs \<Rightarrow> cs)
      in call_field SelectField [(''choices'', choices_val STATE_CHOICES)] kw)"

definition conv_NullBooleanField :: converter_fn where
  "conv_NullBooleanField m fld kw =
     call_field SelectField
       [(''choices'', PyTuple [PyTuple [PyNone, PyStr ''Unknown''],
                               PyTuple [PyBool True, PyStr ''Yes''],
                               PyTuple [PyBool False, PyStr ''No'']]),
        (''coerce'', PyFunc ''coerce_nullbool'')] kw"

definition admin_conv_methods :: "(pyval \<times> string) list option \<Rightarrow> string \<Rightarrow> converter_fn option" where
  "admin_conv_methods us_states t =
     (if t = ''ForeignKey'' then Some conv_ForeignKey
      else if t = ''TimeField'' then Some conv_TimeField
      else if t = ''DateTimeField'' then Some conv_DateTimeField
      else if t = ''DateField'' then Some conv_DateField
      else if t = ''EmailField'' then Some conv_EmailField
      else if t = ''IPAddressField'' then Some conv_IPAddressField
      else if t = ''URLField'' then Some conv_URLField
      else if t = ''USStateField'' then Some (conv_USStateField us_states)
      else if t = ''NullBooleanField'' then Some conv_NullBooleanField
      else None)"

text \<open>
  The constructor's loops: every name of every entry of \<open>simple_conversions\<close> gets the
  simple converter of the entry's field type; \<open>extra_converters\<close> are stored last.
\<close>

fun add_names :: "converter_fn \<Rightarrow> string list \<Rightarrow> converter_fn dict \<Rightarrow> converter_fn dict" where
  "add_names c [] d = d"
| "add_names c (n # ns) d = add_names c ns (dict_set n c d)"

fun add_simple :: "(form_field \<times> string list) list \<Rightarrow> converter_fn dict \<Rightarrow> converter_fn dict" where
  "add_simple [] d = d"
| "add_simple ((field_type, django_fields) # rest) d =
     add_simple rest (add_names (make_simple_converter field_type) django_fields d)"

definition AdminModelConverter ::
  "(pyval \<times> string) list option \<Rightarrow> converter_fn dict option \<Rightarrow>
   (form_field \<times> string list) list option \<Rightarrow> model_converter" where
  "AdminModelConverter us_states extra_converters simple_conversions =
     (let sc = (case simple_conversions of None \<Rightarrow> DEFAULT_SIMPLE_CONVERSIONS | Some s \<Rightarrow> s);
          cs = add_simple sc [];
          cs' = (case extra_converters of
                   None \<Rightarrow> cs
                 | Some ex \<Rightarrow> if ex \<noteq> [] then dict_update cs ex else cs)
      in \<lparr>converters = cs', conv_methods = admin_conv_methods us_states\<rparr>)"

subsection \<open>The coercion function of the tri-state boolean field\<close>

text \<open>
  \<open>int(s)\<close> on text: surrounding white space is dropped, one sign is allowed, and what
  remains must be one or more decimal digits; anything else raises ValueError.
\<close>

definition is_space :: "char \<Rightarrow> bool" where
  "is_space c = (c \<in> set [CHR '' '', CHR 0x09, CHR 0x0A, CHR 0x0B, CHR 0x0C, CHR 0x0D])"

definition strip :: "string \<Rightarrow> string" where
  "strip s = rev (dropWhile is_space (rev (dropWhile is_space s)))"

definition digit_val :: "char \<Rightarrow> int option" where
  "digit_val c =
     (let n = (of_char c :: nat)
      in if 48 \<le> n \<and> n \<le> 57 then Some (int n - 48) else None)"

fun digits_val :: "int \<Rightarrow> string \<Rightarrow> int option" where
  "digits_val acc [] = Some acc"
| "digits_val acc (c # cs) =
     (case digit_val c of None \<Rightarrow> None | Some d \<Rightarrow> digits_val (10 * acc + d) cs)"

definition int_of_str :: "string \<Rightarrow> int option" where
  "int_of_str s =
     (case strip s of
        [] \<Rightarrow> None
      | c # cs \<Rightarrow>
          if c = CHR ''-'' then (if cs = [] then None else map_option uminus (digits_val 0 cs))
          else if c = CHR ''+'' then (if cs = [] then None else digits_val 0 cs)
          else digits_val 0 (c # cs))"

text \<open>\<open>int(value)\<close>: a bool is 0 or 1, text is parsed, other values have no integer form.\<close>

fun py_int :: "pyval \<Rightarrow> error + int" where
  "py_int (PyBool b) = Inr (if b then 1 else 0)"
| "py_int (PyInt i) = Inr i"
| "py_int (PyStr s) = (case int_of_str s of None \<Rightarrow> Inl ValueError | Some i \<Rightarrow> Inr i)"
| "py_int _ = Inl TypeError"

text \<open>
  \<open>value in d\<close> hashes the value (a list is unhashable) and compares it with the four
  keys of \<open>d\<close>; \<open>True\<close> and \<open>False\<close> are not among the keys and go through \<open>int\<close>.
\<close>

fun coerce_nullbool :: "pyval \<Rightarrow> error + pyval" where
  "coerce_nullbool (PyList xs) = Inl TypeError"
| "coerce_nullbool value =
     (let d = [(PyStr ''None'', PyNone), (PyNone, PyNone),
               (PyStr ''True'', PyBool True), (PyStr ''False'', PyBool False)]
      in case map_of d value of
           Some r \<Rightarrow> Inr r
         | None \<Rightarrow>
             (case py_int value of Inl e \<Rightarrow> Inl e | Inr i \<Rightarrow> Inr (PyBool (i \<noteq> 0))))"

section \<open>The model converter\<close>

text \<open>Truthiness of an optional list: \<open>None\<close> and the empty list are false.\<close>

definition truthy :: "'a list option \<Rightarrow> bool" where
  "truthy xs = (case xs of None \<Rightarrow> False | Some l \<Rightarrow> l \<noteq> [])"

definition or_empty :: "'a list option \<Rightarrow> 'a list" where
  "or_empty xs = (case xs of None \<Rightarrow> [] | Some l \<Rightarrow> l)"

text \<open>The loop of \<open>model_fields\<close> over the selected (name, field) pairs.\<close>

fun fill_field_dict ::
  "model_converter \<Rightarrow> model \<Rightarrow> pyval dict dict \<Rightarrow> (string \<times> field) list \<Rightarrow>
   unbound_field dict \<Rightarrow> error + unbound_field dict" where
  "fill_field_dict cv m field_args [] field_dict = Inr field_dict"
| "fill_field_dict cv m field_args ((nm, model_field) # rest) field_dict =
     (case convert cv m model_field (dict_get field_args nm) of
        Inl e \<Rightarrow> Inl e
      | Inr None \<Rightarrow> fill_field_dict cv m field_args rest field_dict
      | Inr (Some fld) \<Rightarrow> fill_field_dict cv m field_args rest (dict_set nm fld field_dict))"

definition select_fields ::
  "model \<Rightarrow> string list option \<Rightarrow> string list option \<Rightarrow> (string \<times> field) list" where
  "select_fields m flds exclude =
     (let model_fields = map (\<lambda>f. (name f, f)) (meta_fields m)
      in if truthy flds then filter (\<lambda>x. fst x \<in> set (or_empty flds)) model_fields
         else if truthy exclude then filter (\<lambda>x. fst x \<notin> set (or_empty exclude)) model_fields
         else model_fields)"

text \<open>
  \<open>converter or ModelConverter()\<close>: the module defines no \<open>ModelConverter\<close>, so a call
  without a converter raises NameError.
\<close>

definition model_fields ::
  "model \<Rightarrow> string list option \<Rightarrow> string list option \<Rightarrow> string list option \<Rightarrow>
   pyval dict dict option \<Rightarrow> model_converter option \<Rightarrow> error + unbound_field dict" where
  "model_fields m flds readonly_fields exclude field_args converter =
     (case converter of
        None \<Rightarrow> Inl NameError
      | Some cv \<Rightarrow>
          fill_field_dict cv m (or_empty field_args) (select_fields m flds exclude) [])"

text \<open>The type that \<open>model_form\<close> creates: its name, its bases and its attributes.\<close>

record form_type =
  form_name :: string
  form_bases :: "string list"
  form_fields :: "unbound_field dict"

definition model_form ::
  "model \<Rightarrow> string \<Rightarrow> string list option \<Rightarrow> string list option \<Rightarrow> string list option \<Rightarrow>
   pyval dict dict option \<Rightarrow> model_converter option \<Rightarrow> error + form_type" where
  "model_form m base_class flds readonly_fields exclude field_args converter =
     (let exclude' = (if truthy exclude then or_empty exclude else []) @ [''id'']
      in case model_fields m flds readonly_fields (Some exclude') field_args converter of
           Inl e \<Rightarrow> Inl e
         | Inr field_dict \<Rightarrow>
             Inr \<lparr>form_name = object_name m @ ''Form'', form_bases = [base_class],
                  form_fields = field_dict\<rparr>)"

section \<open>The model admin of the document backend\<close>

text \<open>
  A document of the collection with its identifier, and a query set: the documents it
  ranges over and the ordering, skip and limit recorded on it so far.
\<close>

record 'a document =
  doc_id :: string
  doc_data :: 'a

record 'a queryset =
  qs_docs :: "'a document list"
  qs_order_by :: "string option"
  qs_skip :: "int option"
  qs_limit :: "int option"

record 'a model_admin =
  admin_model :: model
  objects :: "'a document list"
  only :: "string list option"
  exclude :: "string list option"
  field_args :: "pyval dict dict option"
  list_display :: "string list option"
  sort :: "string option \<times> bool"
  page :: "int option"
  list_per_page :: int

text \<open>
  \<open>issubclass(model, mongoengine.Document)\<close>: a class is given by its method resolution
  order (itself first); \<open>issubclass\<close> raises TypeError when its first argument is not a
  class.
\<close>

datatype candidate = PyClass "string list" | PyInstance string

definition model_detect :: "candidate \<Rightarrow> error + bool" where
  "model_detect c =
     (case c of
        PyClass mro \<Rightarrow> Inr (''mongoengine.Document'' \<in> set mro)
      | PyInstance r \<Rightarrow> Inl TypeError)"

text \<open>
  \<open>ObjectId(pk)\<close> on text: 24 hexadecimal digits name an identifier, whatever the case
  of the letters; text of another length or with other characters raises InvalidId. An
  identifier is kept as its 24 digits in lower case, the form in which a document
  carries it.
\<close>

definition is_hex :: "char \<Rightarrow> bool" where
  "is_hex c =
     (let n = (of_char c :: nat)
      in (48 \<le> n \<and> n \<le> 57) \<or> (65 \<le> n \<and> n \<le> 70) \<or> (97 \<le> n \<and> n \<le> 102))"

definition lower_hex :: "char \<Rightarrow> char" where
  "lower_hex c =
     (let n = (of_char c :: nat) in if 65 \<le> n \<and> n \<le> 70 then char_of (n + 32) else c)"

definition ObjectId :: "string \<Rightarrow> error + string" where
  "ObjectId oid =
     (if length oid = 24 \<and> list_all is_hex oid then Inr (map lower_hex oid)
      else Inl InvalidId)"

text \<open>\<open>[ObjectId(pk) for pk in pks]\<close>: the first failure ends the comprehension.\<close>

fun object_ids :: "string list \<Rightarrow> error + string list" where
  "object_ids [] = Inr []"
| "object_ids (pk # pks) =
     (case ObjectId pk of
        Inl e \<Rightarrow> Inl e
      | Inr i \<Rightarrow> (case object_ids pks of Inl e \<Rightarrow> Inl e | Inr is \<Rightarrow> Inr (i # is)))"

text \<open>\<open>in_bulk(ids).values()\<close>: the documents whose identifier is among \<open>ids\<close>.\<close>

definition in_bulk :: "'a document list \<Rightarrow> string list \<Rightarrow> 'a document list" where
  "in_bulk docs ids = filter (\<lambda>d. doc_id d \<in> set ids) docs"

definition get_objects :: "'a model_admin \<Rightarrow> string list \<Rightarrow> error + 'a document list" where
  "get_objects self pks =
     (case object_ids pks of
        Inl e \<Rightarrow> Inl e
      | Inr ids \<Rightarrow> Inr (in_bulk (objects self) ids))"

text \<open>\<open>obj.delete()\<close> removes the document with the object's identifier from the collection.\<close>

definition delete :: "'a document \<Rightarrow> 'a document list \<Rightarrow> 'a document list" where
  "delete obj docs = filter (\<lambda>d. doc_id d \<noteq> doc_id obj) docs"

definition delete_models ::
  "'a model_admin \<Rightarrow> string list \<Rightarrow> error + (bool \<times> 'a model_admin)" where
  "delete_models self pks =
     (case get_objects self pks of
        Inl e \<Rightarrow> Inl e
      | Inr objs \<Rightarrow> Inr (True, self\<lparr>objects := fold delete objs (objects self)\<rparr>))"

text \<open>
  The query set operations \<open>get_list\<close> uses. \<open>count\<close> is taken on the query before any
  skip or limit is recorded; \<open>all\<close> returns the query set as it is.
\<close>

definition count :: "'a queryset \<Rightarrow> int" where
  "count q = int (length (qs_docs q))"

definition order_by :: "string \<Rightarrow> 'a queryset \<Rightarrow> 'a queryset" where
  "order_by key q = q\<lparr>qs_order_by := Some key\<rparr>"

definition skip :: "int \<Rightarrow> 'a queryset \<Rightarrow> 'a queryset" where
  "skip n q = q\<lparr>qs_skip := Some n\<rparr>"

definition limit :: "int \<Rightarrow> 'a queryset \<Rightarrow> 'a queryset" where
  "limit n q = q\<lparr>qs_limit := Some n\<rparr>"

definition all_docs :: "'a queryset \<Rightarrow> 'a queryset" where
  "all_docs q = q"

definition get_list :: "'a model_admin \<Rightarrow> bool \<Rightarrow> int \<times> 'a queryset" where
  "get_list self execute =
     (let query = \<lparr>qs_docs = objects self, qs_order_by = None, qs_skip = None, qs_limit = None\<rparr>;
          cols = list_display self;
          cnt = count query;
          (sort_column, sort_desc) = sort self;
          pg = page self;
          query = (if truthy sort_column
                   then order_by ((if sort_desc then ''-'' else []) @ or_empty sort_column) query
                   else query);
          query = (case pg of None \<Rightarrow> query | Some p \<Rightarrow> skip (p * list_per_page self) query);
          query = limit (list_per_page self) query;
          query = (if execute then all_docs query else query)
      in (cnt, query))"

text \<open>
  What the storage engine returns when the query set is iterated: the documents in the
  recorded order (\<open>engine_sort\<close> is the engine's sorting by a key such as \<open>-name\<close>), then
  the skip, then the limit. A limit of 0 is the engine's "no limit": all rows are
  returned. The theorems about the rows are stated for a skip and a limit that are not
  negative.
\<close>

definition ordered_docs :: "(string \<Rightarrow> 'a document list \<Rightarrow> 'a document list) \<Rightarrow> 'a queryset \<Rightarrow> 'a document list" where
  "ordered_docs engine_sort q =
     (case qs_order_by q of None \<Rightarrow> qs_docs q | Some key \<Rightarrow> engine_sort key (qs_docs q))"

definition rows :: "(string \<Rightarrow> 'a document list \<Rightarrow> 'a document list) \<Rightarrow> 'a queryset \<Rightarrow> 'a document list" where
  "rows engine_sort q =
     (let xs = ordered_docs engine_sort q;
          xs = (case qs_skip q of None \<Rightarrow> xs | Some n \<Rightarrow> drop (nat n) xs)
      in case qs_limit q of
           None \<Rightarrow> xs
         | Some n \<Rightarrow> if n = 0 then xs else take (nat \<bar>n\<bar>) xs)"

section \<open>Reading a produced form field\<close>

text \<open>The validator list an unbound field was built with.\<close>

definition validators_of :: "unbound_field \<Rightarrow> pyval list" where
  "validators_of d =
     (case dict_get (kwargs d) ''validators'' of Some (PyList vs) \<Rightarrow> vs | _ \<Rightarrow> [])"

section \<open>Properties of the dictionary operations\<close>

lemma map_of_dict_set: "map_of (dict_set k v d) = (map_of d)(k \<mapsto> v)"
  by (induction d) (auto simp: fun_eq_iff)

lemma dict_get_dict_set: "dict_get (dict_set k v d) k' = (if k' = k then Some v else dict_get d k')"
  by (simp add: dict_get_def map_of_dict_set)

lemma keys_dom: "set (keys d) = dom (map_of d)"
  by (simp add: keys_def dom_map_of_conv_image_fst)

lemma keys_dict_set: "set (keys (dict_set k v d)) = insert k (set (keys d))"
  by (simp add: keys_dom map_of_dict_set)

lemma keys_dict_update: "set (keys (dict_update d e)) = set (keys d) \<union> set (keys e)"
proof (induction e arbitrary: d)
  case Nil
  then show ?case by (simp add: keys_def)
next
  case (Cons a e)
  obtain k v where a: "a = (k, v)" by (cases a)
  have "set (keys (a # e)) = insert k (set (keys e))" by (simp add: a keys_def)
  then show ?case using Cons[of "dict_set k v d"] by (simp add: a keys_dict_set)
qed

lemma dict_get_dict_update:
  "dict_get (dict_update d e) k = Some v \<Longrightarrow> (k, v) \<in> set e \<or> dict_get d k = Some v"
proof (induction e arbitrary: d)
  case Nil
  then show ?case by simp
next
  case (Cons a e)
  obtain k' v' where a: "a = (k', v')" by (cases a)
  from Cons.prems have "dict_get (dict_update (dict_set k' v' d) e) k = Some v" by (simp add: a)
  from Cons.IH[OF this] show ?case
    by (auto simp: a dict_get_dict_set split: if_splits)
qed

lemma dict_get_dict_update_other:
  "k \<notin> set (keys e) \<Longrightarrow> dict_get (dict_update d e) k = dict_get d k"
proof (induction e arbitrary: d)
  case Nil
  then show ?case by simp
next
  case (Cons a e)
  obtain k' v' where a: "a = (k', v')" by (cases a)
  from Cons.prems have "k \<noteq> k'" "k \<notin> set (keys e)" by (auto simp: a keys_def)
  then show ?case using Cons.IH[of "dict_set k' v' d"] by (simp add: a dict_get_dict_set)
qed

lemma dict_get_None_iff: "dict_get d k = None \<longleftrightarrow> k \<notin> set (keys d)"
  by (simp add: dict_get_def keys_def map_of_eq_None_iff)

lemma dict_get_dict_update_dom:
  "dict_get d k \<noteq> None \<Longrightarrow> dict_get (dict_update d e) k \<noteq> None"
  using keys_dict_update[of d e] by (auto simp: dict_get_None_iff)



lemma with_field_args_get_other:
  "k \<notin> set (keys (or_empty fa)) \<Longrightarrow> dict_get (with_field_args kw fa) k = dict_get kw k"
  by (auto simp: with_field_args_def or_empty_def dict_get_dict_update_other split: option.splits)



lemma append_to_list:
  "dict_get kw key = Some (PyList xs) \<Longrightarrow> append_to key v kw = Inr (dict_set key (PyList (xs @ [v])) kw)"
  by (simp add: append_to_def)

lemma append_to_get:
  "append_to key v kw = Inr kw' \<Longrightarrow>
   dict_get kw' k = (if k = key then (case dict_get kw key of Some (PyList xs) \<Rightarrow> Some (PyList (xs @ [v])) | _ \<Rightarrow> None) else dict_get kw k)"
  by (auto simp: append_to_def dict_get_dict_set split: option.splits pyval.splits)

section \<open>Choice fields\<close>

lemma call_field_ok:
  "set (keys explicit) \<inter> set (keys kw) = {} \<Longrightarrow>
   call_field cls explicit kw = Inr (Some \<lparr>field_class = cls, kwargs = explicit @ kw\<rparr>)"
  by (auto simp: call_field_def list_ex_iff)

lemma call_field_result:
  "call_field cls explicit kw = Inr r \<Longrightarrow>
   r = Some \<lparr>field_class = cls, kwargs = explicit @ kw\<rparr> \<and> set (keys explicit) \<inter> set (keys kw) = {}"
  by (auto simp: call_field_def list_ex_iff split: if_splits)

lemma dict_get_append:
  "k \<notin> set (keys xs) \<Longrightarrow> dict_get (xs @ ys) k = dict_get ys k"
  by (simp add: dict_get_def keys_dom map_add_def domIff split: option.splits)



lemma add_optional_list:
  "dict_get kw ''validators'' = Some (PyList xs) \<Longrightarrow>
   add_optional fld kw = Inr kw' \<Longrightarrow>
   dict_get kw' ''validators'' = Some (PyList (xs @ (if blank fld then [PyValidator Optional] else [])))"
  by (auto simp: add_optional_def append_to_get split: if_splits)

lemma add_optional_total:
  "dict_get kw ''validators'' = Some (PyList xs) \<Longrightarrow> \<exists>kw'. add_optional fld kw = Inr kw'"
  by (simp add: add_optional_def append_to_list)

lemma add_length_list:
  "dict_get kw ''validators'' = Some (PyList xs) \<Longrightarrow>
   add_length fld kw = Inr kw' \<Longrightarrow>
   \<exists>ws. dict_get kw' ''validators'' = Some (PyList (xs @ ws)) \<and> PyValidator Optional \<notin> set ws"
  by (auto simp: add_length_def append_to_get split: if_splits option.splits)

lemma add_length_total:
  "dict_get kw ''validators'' = Some (PyList xs) \<Longrightarrow> \<exists>kw'. add_length fld kw = Inr kw'"
  by (simp add: add_length_def append_to_list split: option.splits)






section \<open>The optional validator\<close>

lemma call_field_validators:
  assumes "call_field cls explicit kw = Inr (Some d)" and "''validators'' \<notin> set (keys explicit)"
  shows "dict_get (kwargs d) ''validators'' = dict_get kw ''validators''"
  using call_field_result[OF assms(1)] assms(2) by (auto simp: dict_get_append)

lemma add_names_entry:
  "dict_get (add_names c ns d) t = Some c' \<Longrightarrow> c' = c \<or> dict_get d t = Some c'"
proof (induction ns arbitrary: d)
  case Nil
  then show ?case by simp
next
  case (Cons n ns)
  from Cons.prems have "dict_get (add_names c ns (dict_set n c d)) t = Some c'" by simp
  from Cons.IH[OF this] show ?case
    by (auto simp: dict_get_dict_set split: if_splits)
qed

lemma add_simple_entry:
  "dict_get (add_simple sc d) t = Some c \<Longrightarrow>
   (\<exists>ft. c = make_simple_converter ft) \<or> dict_get d t = Some c"
proof (induction sc d rule: add_simple.induct)
  case (1 d)
  then show ?case by simp
next
  case (2 field_type django_fields rest d)
  from "2.prems" have "dict_get (add_simple rest (add_names (make_simple_converter field_type) django_fields d)) t = Some c"
    by simp
  from "2.IH"[OF this] show ?case
    by (auto dest: add_names_entry)
qed

lemma admin_table_simple:
  "dict_get (converters (AdminModelConverter us None sc)) t = Some c \<Longrightarrow>
   \<exists>ft. c = make_simple_converter ft"
  by (auto simp: AdminModelConverter_def Let_def dict_get_def[of "[]"] dest: add_simple_entry)

lemma simple_keeps_validators:
  "make_simple_converter ft m fld kw = Inr (Some d) \<Longrightarrow>
   dict_get (kwargs d) ''validators'' = dict_get kw ''validators''"
  by (auto simp: make_simple_converter_def keys_def dest: call_field_validators)

lemma append_filters_validators:
  "append_to ''filters'' v kw = Inr kw' \<Longrightarrow> dict_get kw' ''validators'' = dict_get kw ''validators''"
  by (simp add: append_to_get)

lemma append_validators:
  "append_to ''validators'' v kw = Inr kw' \<Longrightarrow> dict_get kw ''validators'' = Some (PyList xs) \<Longrightarrow>
   dict_get kw' ''validators'' = Some (PyList (xs @ [v]))"
  by (simp add: append_to_get)

lemma admin_method_validators:
  assumes "admin_conv_methods us t = Some c" and "c m fld kw = Inr (Some d)"
    and "dict_get kw ''validators'' = Some (PyList xs)"
  shows "\<exists>ws. dict_get (kwargs d) ''validators'' = Some (PyList (xs @ ws)) \<and>
              PyValidator Optional \<notin> set ws"
proof -
  consider "c = conv_ForeignKey" | "c = conv_TimeField" | "c = conv_DateTimeField"
    | "c = conv_DateField" | "c = conv_EmailField" | "c = conv_IPAddressField"
    | "c = conv_URLField" | "c = conv_USStateField us" | "c = conv_NullBooleanField"
    using assms(1) by (auto simp: admin_conv_methods_def split: if_splits)
  then show ?thesis
  proof cases
    case 1
    with assms(2) have "dict_get (kwargs d) ''validators'' = dict_get kw ''validators''"
      by (auto simp: conv_ForeignKey_def keys_def split: option.splits dest: call_field_validators)
    with assms(3) show ?thesis by simp
  next
    case 2
    with assms(2) have "dict_get (kwargs d) ''validators'' = dict_get kw ''validators''"
      by (auto simp: conv_TimeField_def keys_def split: sum.splits
               dest!: call_field_validators append_filters_validators)
    with assms(3) show ?thesis by simp
  next
    case 3
    with assms(2) have "dict_get (kwargs d) ''validators'' = dict_get kw ''validators''"
      by (auto simp: conv_DateTimeField_def keys_def split: sum.splits
               dest!: call_field_validators append_filters_validators)
    with assms(3) show ?thesis by simp
  next
    case 4
    with assms(2) have "dict_get (kwargs d) ''validators'' = dict_get kw ''validators''"
      by (auto simp: conv_DateField_def keys_def split: sum.splits
               dest!: call_field_validators append_filters_validators)
    with assms(3) show ?thesis by simp
  next
    case 5
    with assms(2) obtain kw' where a: "append_to ''validators'' (PyValidator Email) kw = Inr kw'"
      and b: "call_field StringField [] kw' = Inr (Some d)"
      by (auto simp: conv_EmailField_def split: sum.splits)
    from call_field_validators[OF b] append_validators[OF a assms(3)]
    show ?thesis by (simp add: keys_def)
  next
    case 6
    with assms(2) obtain kw' where a: "append_to ''validators'' (PyValidator IPAddress) kw = Inr kw'"
      and b: "call_field StringField [] kw' = Inr (Some d)"
      by (auto simp: conv_IPAddressField_def split: sum.splits)
    from call_field_validators[OF b] append_validators[OF a assms(3)]
    show ?thesis by (simp add: keys_def)
  next
    case 7
    with assms(2) obtain kw' where a: "append_to ''validators'' (PyValidator URL) kw = Inr kw'"
      and b: "call_field StringField [] kw' = Inr (Some d)"
      by (auto simp: conv_URLField_def split: sum.splits)
    from call_field_validators[OF b] append_validators[OF a assms(3)]
    show ?thesis by (simp add: keys_def)
  next
    case 8
    with assms(2) have "dict_get (kwargs d) ''validators'' = dict_get kw ''validators''"
      by (auto simp: conv_USStateField_def keys_def dest: call_field_validators)
    with assms(3) show ?thesis by simp
  next
    case 9
    with assms(2) have "dict_get (kwargs d) ''validators'' = dict_get kw ''validators''"
      by (auto simp: conv_NullBooleanField_def keys_def dest: call_field_validators)
    with assms(3) show ?thesis by simp
  qed
qed

lemma dispatch_validators:
  assumes "dispatch (AdminModelConverter us None sc) m fld kw = Inr (Some d)"
    and "dict_get kw ''validators'' = Some (PyList xs)"
  shows "\<exists>ws. dict_get (kwargs d) ''validators'' = Some (PyList (xs @ ws)) \<and>
              PyValidator Optional \<notin> set ws"
proof (cases "choices fld \<noteq> []")
  case True
  let ?kw = "dict_set ''choices'' (choices_val (choices fld)) kw"
  from assms(1) True
  have "call_field SelectField [(''widget'', PyWidget ChosenSelectWidget)] ?kw = Inr (Some d)"
    by (simp add: dispatch_def)
  from call_field_validators[OF this]
  have "dict_get (kwargs d) ''validators'' = dict_get kw ''validators''"
    by (simp add: keys_def dict_get_dict_set)
  with assms(2) show ?thesis by simp
next
  case False
  let ?cv = "AdminModelConverter us None sc"
  show ?thesis
  proof (cases "dict_get (converters ?cv) (ftype fld)")
    case (Some c)
    then obtain ft where "c = make_simple_converter ft"
      using admin_table_simple by blast
    with assms(1) False Some have "make_simple_converter ft m fld kw = Inr (Some d)"
      by (simp add: dispatch_def)
    from simple_keeps_validators[OF this] assms(2) show ?thesis by simp
  next
    case None
    with assms(1) False obtain c where c: "conv_methods ?cv (ftype fld) = Some c"
      and r: "c m fld kw = Inr (Some d)"
      by (auto simp: dispatch_def split: option.splits)
    from c have "admin_conv_methods us (ftype fld) = Some c"
      by (simp add: AdminModelConverter_def Let_def)
    from admin_method_validators[OF this r assms(2)] show ?thesis .
  qed
qed

text \<open>
  Claim C8. For a field converted by the admin converter without a caller override of the
  validators, the validator list of the produced field holds the optional validator
  exactly when the field is blank.
\<close>

theorem convert_optional_iff_blank:
  assumes "''validators'' \<notin> set (keys (or_empty fa))"
    and "convert (AdminModelConverter us None sc) m fld fa = Inr (Some d)"
  shows "PyValidator Optional \<in> set (validators_of d) \<longleftrightarrow> blank fld"
proof -
  let ?kw0 = "with_field_args (base_kwargs fld) fa"
  have v0: "dict_get ?kw0 ''validators'' = Some (PyList [])"
    using assms(1) by (simp add: with_field_args_get_other) (simp add: base_kwargs_def dict_get_def)
  from assms(2) obtain kw1 kw2 where kw1: "add_optional fld ?kw0 = Inr kw1"
    and kw2: "add_length fld kw1 = Inr kw2"
    and dp: "dispatch (AdminModelConverter us None sc) m fld kw2 = Inr (Some d)"
    by (auto simp: convert_def split: sum.splits)
  from add_optional_list[OF v0 kw1]
  have v1: "dict_get kw1 ''validators'' = Some (PyList (if blank fld then [PyValidator Optional] else []))"
    by simp
  from add_length_list[OF v1 kw2] obtain ws where
    v2: "dict_get kw2 ''validators'' = Some (PyList ((if blank fld then [PyValidator Optional] else []) @ ws))"
    and ws: "PyValidator Optional \<notin> set ws" by blast
  from dispatch_validators[OF dp v2] obtain ws' where
    v3: "dict_get (kwargs d) ''validators'' =
         Some (PyList (((if blank fld then [PyValidator Optional] else []) @ ws) @ ws'))"
    and ws': "PyValidator Optional \<notin> set ws'" by blast
  show ?thesis using ws ws' by (simp add: validators_of_def v3)
qed

theorem convert_optional_iff_blank_witness:
  "convert (AdminModelConverter None None None)
     \<lparr>object_name = ''Ticket'', meta_fields = [], pk_name = ''id''\<rparr>
     \<lparr>name = ''email'', ftype = ''EmailField'', verbose_name = ''Email'',
      help_text = [], default_val = PyNone, blank = True, max_length = Some 75,
      choices = [], rel_to = None\<rparr> None =
   Inr (Some \<lparr>field_class = StringField,
              kwargs = [(''label'', PyStr ''Email''), (''description'', PyStr []),
                        (''validators'', PyList [PyValidator Optional, PyValidator (Length 75),
                                                 PyValidator Email]),
                        (''filters'', PyList []), (''default'', PyNone)]\<rparr>) \<and>
   PyValidator Optional \<in> set (validators_of
     \<lparr>field_class = StringField,
      kwargs = [(''label'', PyStr ''Email''), (''description'', PyStr []),
                (''validators'', PyList [PyValidator Optional, PyValidator (Length 75),
                                         PyValidator Email]),
                (''filters'', PyList []), (''default'', PyNone)]\<rparr>)"
proof -
  have c: "convert (AdminModelConverter None None None)
     \<lparr>object_name = ''Ticket'', meta_fields = [], pk_name = ''id''\<rparr>
     \<lparr>name = ''email'', ftype = ''EmailField'', verbose_name = ''Email'',
      help_text = [], default_val = PyNone, blank = True, max_length = Some 75,
      choices = [], rel_to = None\<rparr> None =
   Inr (Some \<lparr>field_class = StringField,
              kwargs = [(''label'', PyStr ''Email''), (''description'', PyStr []),
                        (''validators'', PyList [PyValidator Optional, PyValidator (Length 75),
                                                 PyValidator Email]),
                        (''filters'', PyList []), (''default'', PyNone)]\<rparr>)"
    by (simp add: convert_def add_optional_def add_length_def append_to_def dict_get_def
        with_field_args_def base_kwargs_def dispatch_def AdminModelConverter_def
        DEFAULT_SIMPLE_CONVERSIONS_def admin_conv_methods_def conv_EmailField_def
        call_field_def keys_def)
  have k: "''validators'' \<notin> set (keys (or_empty (None :: pyval dict option)))"
    by (simp add: or_empty_def keys_def)
  from convert_optional_iff_blank[OF k c] c show ?thesis by simp
qed

section \<open>The tri-state coercion\<close>

lemma int_of_str_keys:
  "int_of_str ''None'' = None" "int_of_str ''True'' = None" "int_of_str ''False'' = None"
  by (simp_all add: int_of_str_def strip_def is_space_def digit_val_def)

lemma coerce_nullbool_int:
  assumes "py_int v = Inr n"
  shows "coerce_nullbool v = Inr (PyBool (n \<noteq> 0))"
proof (cases v)
  case (PyStr s)
  with assms have p: "int_of_str s = Some n" by (simp split: option.splits)
  then have "s \<noteq> ''None''" "s \<noteq> ''True''" "s \<noteq> ''False''"
    using int_of_str_keys by auto
  then show ?thesis using p by (simp add: PyStr)
qed (use assms in auto)

text \<open>
  Claim C9. The coercion function of the tri-state boolean field maps \<open>"True"\<close>,
  \<open>True\<close>, \<open>"False"\<close>, \<open>False\<close>, \<open>"None"\<close>, \<open>None\<close> to
  \<open>True\<close>, \<open>True\<close>, \<open>False\<close>, \<open>False\<close>, \<open>None\<close>, \<open>None\<close>; every
  other value that \<open>int\<close> accepts (such as \<open>"1"\<close>) is mapped to the boolean of its
  integer: true exactly when the integer is not zero.
\<close>

theorem coerce_nullbool_table:
  "coerce_nullbool (PyStr ''True'') = Inr (PyBool True) \<and>
   coerce_nullbool (PyBool True) = Inr (PyBool True) \<and>
   coerce_nullbool (PyStr ''False'') = Inr (PyBool False) \<and>
   coerce_nullbool (PyBool False) = Inr (PyBool False) \<and>
   coerce_nullbool (PyStr ''None'') = Inr PyNone \<and>
   coerce_nullbool PyNone = Inr PyNone \<and>
   coerce_nullbool (PyStr ''1'') = Inr (PyBool True) \<and>
   (py_int v = Inr n \<longrightarrow> coerce_nullbool v = Inr (PyBool (n \<noteq> 0)))"
proof -
  have "py_int (PyStr ''1'') = Inr 1"
    by (simp add: int_of_str_def strip_def is_space_def digit_val_def)
  from coerce_nullbool_int[OF this] have "coerce_nullbool (PyStr ''1'') = Inr (PyBool True)"
    by simp
  then show ?thesis using coerce_nullbool_int[of v n] by simp
qed

theorem coerce_nullbool_table_witness:
  "py_int (PyStr '' -042 '') = Inr (- 42) \<and> coerce_nullbool (PyStr '' -042 '') = Inr (PyBool True) \<and>
   py_int (PyStr ''0'') = Inr 0 \<and> coerce_nullbool (PyStr ''0'') = Inr (PyBool False)"
proof -
  have a: "py_int (PyStr '' -042 '') = Inr (- 42)"
    by (simp add: int_of_str_def strip_def is_space_def digit_val_def)
  have b: "py_int (PyStr ''0'') = Inr 0"
    by (simp add: int_of_str_def strip_def is_space_def digit_val_def)
  from coerce_nullbool_table[of "PyStr '' -042 ''" "- 42"] coerce_nullbool_table[of "PyStr ''0''" 0] a b
  show ?thesis by simp
qed

section \<open>The loop of the model converter\<close>

lemma keys_dict_set_new: "k \<notin> set (keys d) \<Longrightarrow> keys (dict_set k v d) = keys d @ [k]"
  by (induction d) (auto simp: keys_def)

lemma fill_field_dict_keys_subset:
  "fill_field_dict cv m fa xs d = Inr d' \<Longrightarrow> set (keys d') \<subseteq> set (keys d) \<union> fst ` set xs"
proof (induction cv m fa xs d rule: fill_field_dict.induct)
  case (1 cv m fa d)
  then show ?case by simp
next
  case (2 cv m fa nm model_field rest d)
  show ?case
  proof (cases "convert cv m model_field (dict_get fa nm)")
    case (Inl e)
    with "2.prems" show ?thesis by simp
  next
    case (Inr r)
    show ?thesis
    proof (cases r)
      case None
      with Inr "2.prems" have "fill_field_dict cv m fa rest d = Inr d'" by simp
      from "2.IH"(1)[OF Inr None this] show ?thesis by auto
    next
      case (Some fld)
      with Inr "2.prems" have "fill_field_dict cv m fa rest (dict_set nm fld d) = Inr d'" by simp
      from "2.IH"(2)[OF Inr Some this] show ?thesis by (auto simp: keys_dict_set)
    qed
  qed
qed

lemma fill_field_dict_keys_grow:
  "fill_field_dict cv m fa xs d = Inr d' \<Longrightarrow> set (keys d) \<subseteq> set (keys d')"
proof (induction cv m fa xs d rule: fill_field_dict.induct)
  case (1 cv m fa d)
  then show ?case by simp
next
  case (2 cv m fa nm model_field rest d)
  show ?case
  proof (cases "convert cv m model_field (dict_get fa nm)")
    case (Inl e)
    with "2.prems" show ?thesis by simp
  next
    case (Inr r)
    show ?thesis
    proof (cases r)
      case None
      with Inr "2.prems" have "fill_field_dict cv m fa rest d = Inr d'" by simp
      from "2.IH"(1)[OF Inr None this] show ?thesis .
    next
      case (Some fld)
      with Inr "2.prems" have "fill_field_dict cv m fa rest (dict_set nm fld d) = Inr d'" by simp
      from "2.IH"(2)[OF Inr Some this] show ?thesis by (auto simp: keys_dict_set)
    qed
  qed
qed

lemma fill_field_dict_converted:
  "fill_field_dict cv m fa xs d = Inr d' \<Longrightarrow> (n, f) \<in> set xs \<Longrightarrow>
   convert cv m f (dict_get fa n) = Inr (Some x) \<Longrightarrow> n \<in> set (keys d')"
proof (induction cv m fa xs d rule: fill_field_dict.induct)
  case (1 cv m fa d)
  then show ?case by simp
next
  case (2 cv m fa nm model_field rest d)
  show ?case
  proof (cases "convert cv m model_field (dict_get fa nm)")
    case (Inl e)
    with "2.prems" show ?thesis by simp
  next
    case (Inr r)
    show ?thesis
    proof (cases r)
      case None
      with Inr "2.prems"(1) have rest: "fill_field_dict cv m fa rest d = Inr d'" by simp
      from "2.prems"(2,3) Inr None have "(n, f) \<in> set rest" by auto
      from "2.IH"(1)[OF Inr None rest this "2.prems"(3)] show ?thesis .
    next
      case (Some fld)
      with Inr "2.prems"(1)
      have rest: "fill_field_dict cv m fa rest (dict_set nm fld d) = Inr d'" by simp
      show ?thesis
      proof (cases "(n, f) \<in> set rest")
        case True
        from "2.IH"(2)[OF Inr Some rest True "2.prems"(3)] show ?thesis .
      next
        case False
        with "2.prems"(2) have "n = nm" by simp
        then have "n \<in> set (keys (dict_set nm fld d))" by (simp add: keys_dict_set)
        with fill_field_dict_keys_grow[OF rest] show ?thesis by blast
      qed
    qed
  qed
qed

lemma fill_field_dict_keys_exact:
  "fill_field_dict cv m fa xs d = Inr d' \<Longrightarrow> distinct (keys d @ map fst xs) \<Longrightarrow>
   keys d' = keys d @ map fst (filter (\<lambda>x. convert cv m (snd x) (dict_get fa (fst x)) \<noteq> Inr None) xs)"
proof (induction cv m fa xs d rule: fill_field_dict.induct)
  case (1 cv m fa d)
  then show ?case by simp
next
  case (2 cv m fa nm model_field rest d)
  show ?case
  proof (cases "convert cv m model_field (dict_get fa nm)")
    case (Inl e)
    with "2.prems" show ?thesis by simp
  next
    case (Inr r)
    show ?thesis
    proof (cases r)
      case None
      with Inr "2.prems"(1) have rest: "fill_field_dict cv m fa rest d = Inr d'" by simp
      from "2.prems"(2) have "distinct (keys d @ map fst rest)" by simp
      from "2.IH"(1)[OF Inr None rest this] show ?thesis using Inr None by simp
    next
      case (Some fld)
      with Inr "2.prems"(1)
      have rest: "fill_field_dict cv m fa rest (dict_set nm fld d) = Inr d'" by simp
      from "2.prems"(2) have nm: "nm \<notin> set (keys d)" by auto
      then have k: "keys (dict_set nm fld d) = keys d @ [nm]" by (rule keys_dict_set_new)
      from "2.prems"(2) have "distinct (keys (dict_set nm fld d) @ map fst rest)"
        by (auto simp: k)
      from "2.IH"(2)[OF Inr Some rest this] show ?thesis using Inr Some by (simp add: k)
    qed
  qed
qed

section \<open>Selecting the fields of a model\<close>

lemma select_fields_include:
  "truthy flds \<Longrightarrow>
   select_fields m flds exc = map (\<lambda>f. (name f, f)) (filter (\<lambda>f. name f \<in> set (or_empty flds)) (meta_fields m))"
  by (simp add: select_fields_def Let_def filter_map comp_def)

lemma select_fields_exclude:
  "\<not> truthy flds \<Longrightarrow> truthy exc \<Longrightarrow>
   select_fields m flds exc = map (\<lambda>f. (name f, f)) (filter (\<lambda>f. name f \<notin> set (or_empty exc)) (meta_fields m))"
  by (simp add: select_fields_def Let_def filter_map comp_def)

text \<open>
  Claim C7, as stated, fails: a named field that the converter has no conversion for is
  left out of the result, and a call that is given no converter raises NameError, since
  the default the code falls back to is not defined.
\<close>

theorem model_fields_include_counterexample:
  "model_fields
     \<lparr>object_name = ''Note'',
       meta_fields =
         [\<lparr>name = ''a'', ftype = ''CharField'', verbose_name = ''A'', help_text = [],
           default_val = PyNone, blank = False, max_length = Some 20, choices = [],
           rel_to = None\<rparr>,
          \<lparr>name = ''b'', ftype = ''TextField'', verbose_name = ''B'', help_text = [],
           default_val = PyNone, blank = True, max_length = None, choices = [],
           rel_to = None\<rparr>,
          \<lparr>name = ''c'', ftype = ''IntegerField'', verbose_name = ''C'', help_text = [],
           default_val = PyInt 0, blank = False, max_length = None, choices = [],
           rel_to = None\<rparr>],
       pk_name = ''a''\<rparr>
     (Some [''b'', ''a'']) None None None (Some (AdminModelConverter None None None)) =
   Inr [(''a'', \<lparr>field_class = StringField,
            kwargs = [(''label'', PyStr ''A''), (''description'', PyStr []),
                      (''validators'', PyList [PyValidator (Length 20)]),
                      (''filters'', PyList []), (''default'', PyNone)]\<rparr>)] \<and>
   model_fields
     \<lparr>object_name = ''Note'',
       meta_fields =
         [\<lparr>name = ''a'', ftype = ''CharField'', verbose_name = ''A'', help_text = [],
           default_val = PyNone, blank = False, max_length = Some 20, choices = [],
           rel_to = None\<rparr>,
          \<lparr>name = ''b'', ftype = ''TextField'', verbose_name = ''B'', help_text = [],
           default_val = PyNone, blank = True, max_length = None, choices = [],
           rel_to = None\<rparr>,
          \<lparr>name = ''c'', ftype = ''IntegerField'', verbose_name = ''C'', help_text = [],
           default_val = PyInt 0, blank = False, max_length = None, choices = [],
           rel_to = None\<rparr>],
       pk_name = ''a''\<rparr>
     (Some [''b'', ''a'']) None None None None = Inl NameError"
  by code_simp

text \<open>
  Claim C7, amended. For a model with distinct field names and a call of \<open>model_fields\<close>
  that is given a converter and a non-empty include list and does not raise, the result
  holds exactly the named fields that the converter produces a form field for, under
  their names in the model's declared order, whatever the order of the include list;
  the exclude list is not applied: any other exclude list gives the same result.
\<close>

theorem model_fields_include:
  assumes "inc \<noteq> []" and "distinct (map name (meta_fields m))"
    and "model_fields m (Some inc) ro exc fa (Some cv) = Inr d"
  shows "keys d = map name (filter (\<lambda>f. name f \<in> set inc \<and>
                    convert cv m f (dict_get (or_empty fa) (name f)) \<noteq> Inr None) (meta_fields m)) \<and>
         model_fields m (Some inc) ro' exc' fa (Some cv) = Inr d"
proof -
  have t: "truthy (Some inc)" using assms(1) by (simp add: truthy_def)
  let ?xs = "map (\<lambda>f. (name f, f)) (filter (\<lambda>f. name f \<in> set inc) (meta_fields m))"
  have sel: "select_fields m (Some inc) e = ?xs" for e
    using select_fields_include[OF t] by (simp add: or_empty_def)
  from assms(3) have f: "fill_field_dict cv m (or_empty fa) ?xs [] = Inr d"
    by (simp add: model_fields_def sel)
  have "map fst ?xs = map name (filter (\<lambda>f. name f \<in> set inc) (meta_fields m))"
    by (simp add: comp_def)
  moreover have "distinct (map name (filter (\<lambda>f. name f \<in> set inc) (meta_fields m)))"
    using assms(2) by (rule distinct_map_filter)
  ultimately have "distinct (keys ([] :: unbound_field dict) @ map fst ?xs)"
    by (simp only: keys_def list.map append_Nil)
  from fill_field_dict_keys_exact[OF f this]
  have "keys d = map name (filter (\<lambda>f. name f \<in> set inc \<and>
                    convert cv m f (dict_get (or_empty fa) (name f)) \<noteq> Inr None) (meta_fields m))"
    by (simp add: keys_def filter_map comp_def)
  moreover have "model_fields m (Some inc) ro' exc' fa (Some cv) = Inr d"
    using f by (simp add: model_fields_def sel)
  ultimately show ?thesis by simp
qed


theorem model_fields_include_witness:
  "model_fields
     \<lparr>object_name = ''Note'',
       meta_fields =
         [\<lparr>name = ''a'', ftype = ''CharField'', verbose_name = ''A'', help_text = [],
           default_val = PyNone, blank = False, max_length = Some 20, choices = [],
           rel_to = None\<rparr>,
          \<lparr>name = ''b'', ftype = ''TextField'', verbose_name = ''B'', help_text = [],
           default_val = PyNone, blank = True, max_length = None, choices = [],
           rel_to = None\<rparr>,
          \<lparr>name = ''c'', ftype = ''IntegerField'', verbose_name = ''C'', help_text = [],
           default_val = PyInt 0, blank = False, max_length = None, choices = [],
           rel_to = None\<rparr>],
       pk_name = ''a''\<rparr>
     (Some [''c'', ''b'', ''a'']) None (Some [''a'']) None
     (Some (AdminModelConverter None None None)) =
   Inr [(''a'', \<lparr>field_class = StringField,
                kwargs = [(''label'', PyStr ''A''), (''description'', PyStr []),
                          (''validators'', PyList [PyValidator (Length 20)]),
                          (''filters'', PyList []), (''default'', PyNone)]\<rparr>),
        (''c'', \<lparr>field_class = IntegerField,
                kwargs = [(''label'', PyStr ''C''), (''description'', PyStr []),
                          (''validators'', PyList []),
                          (''filters'', PyList []), (''default'', PyInt 0)]\<rparr>)] \<and>
   keys [(''a'', \<lparr>field_class = StringField,
                kwargs = [(''label'', PyStr ''A''), (''description'', PyStr []),
                          (''validators'', PyList [PyValidator (Length 20)]),
                          (''filters'', PyList []), (''default'', PyNone)]\<rparr>),
        (''c'', \<lparr>field_class = IntegerField,
                kwargs = [(''label'', PyStr ''C''), (''description'', PyStr []),
                          (''validators'', PyList []),
                          (''filters'', PyList []), (''default'', PyInt 0)]\<rparr>)] = [''a'', ''c''] \<and>
   model_fields
     \<lparr>object_name = ''Note'',
       meta_fields =
         [\<lparr>name = ''a'', ftype = ''CharField'', verbose_name = ''A'', help_text = [],
           default_val = PyNone, blank = False, max_length = Some 20, choices = [],
           rel_to = None\<rparr>,
          \<lparr>name = ''b'', ftype = ''TextField'', verbose_name = ''B'', help_text = [],
           default_val = PyNone, blank = True, max_length = None, choices = [],
           rel_to = None\<rparr>,
          \<lparr>name = ''c'', ftype = ''IntegerField'', verbose_name = ''C'', help_text = [],
           default_val = PyInt 0, blank = False, max_length = None, choices = [],
           rel_to = None\<rparr>],
       pk_name = ''a''\<rparr>
     (Some [''c'', ''b'', ''a'']) None None None
     (Some (AdminModelConverter None None None)) =
   Inr [(''a'', \<lparr>field_class = StringField,
                kwargs = [(''label'', PyStr ''A''), (''description'', PyStr []),
                          (''validators'', PyList [PyValidator (Length 20)]),
                          (''filters'', PyList []), (''default'', PyNone)]\<rparr>),
        (''c'', \<lparr>field_class = IntegerField,
                kwargs = [(''label'', PyStr ''C''), (''description'', PyStr []),
                          (''validators'', PyList []),
                          (''filters'', PyList []), (''default'', PyInt 0)]\<rparr>)]"
proof -
  have r: "model_fields
     \<lparr>object_name = ''Note'',
       meta_fields =
         [\<lparr>name = ''a'', ftype = ''CharField'', verbose_name = ''A'', help_text = [],
           default_val = PyNone, blank = False, max_length = Some 20, choices = [],
           rel_to = None\<rparr>,
          \<lparr>name = ''b'', ftype = ''TextField'', verbose_name = ''B'', help_text = [],
           default_val = PyNone, blank = True, max_length = None, choices = [],
           rel_to = None\<rparr>,
          \<lparr>name = ''c'', ftype = ''IntegerField'', verbose_name = ''C'', help_text = [],
           default_val = PyInt 0, blank = False, max_length = None, choices = [],
           rel_to = None\<rparr>],
       pk_name = ''a''\<rparr>
     (Some [''c'', ''b'', ''a'']) None (Some [''a'']) None
     (Some (AdminModelConverter None None None)) =
   Inr [(''a'', \<lparr>field_class = StringField,
                kwargs = [(''label'', PyStr ''A''), (''description'', PyStr []),
                          (''validators'', PyList [PyValidator (Length 20)]),
                          (''filters'', PyList []), (''default'', PyNone)]\<rparr>),
        (''c'', \<lparr>field_class = IntegerField,
                kwargs = [(''label'', PyStr ''C''), (''description'', PyStr []),
                          (''validators'', PyList []),
                          (''filters'', PyList []), (''default'', PyInt 0)]\<rparr>)]"
    by code_simp
  have i: "[''c'', ''b'', ''a''] \<noteq> []" by simp
  from model_fields_include[OF i _ r, of None None] r show ?thesis
    by (simp add: keys_def)
qed

section \<open>The forced exclusion of \<open>id\<close>\<close>

lemma select_fields_names:
  assumes "n \<in> fst ` set (select_fields m flds exc)"
  shows "n \<in> name ` set (meta_fields m)"
    and "truthy flds \<Longrightarrow> n \<in> set (or_empty flds)"
    and "\<not> truthy flds \<Longrightarrow> truthy exc \<Longrightarrow> n \<notin> set (or_empty exc)"
  using assms by (auto simp: select_fields_def Let_def split: if_splits)

lemma select_fields_member:
  assumes "f \<in> set (meta_fields m)"
    and "if truthy flds then name f \<in> set (or_empty flds)
         else (truthy exc \<longrightarrow> name f \<notin> set (or_empty exc))"
  shows "(name f, f) \<in> set (select_fields m flds exc)"
  using assms by (auto simp: select_fields_def Let_def split: if_splits)

lemma forced_exclude:
  "truthy (Some ((if truthy exc then or_empty exc else []) @ [''id'']))"
  "set (or_empty (Some ((if truthy exc then or_empty exc else []) @ [''id'']))) =
     insert ''id'' (set (or_empty exc))"
  by (auto simp: truthy_def or_empty_def split: option.splits)

lemma model_form_fields:
  assumes "model_form m base flds ro exc fa cvo = Inr frm"
  shows "\<exists>cv. cvo = Some cv \<and>
           fill_field_dict cv m (or_empty fa)
             (select_fields m flds (Some ((if truthy exc then or_empty exc else []) @ [''id''])))
             [] = Inr (form_fields frm)"
  using assms
  by (auto simp: model_form_def model_fields_def Let_def split: sum.splits option.splits)

lemma model_form_key_selected:
  assumes "model_form m base flds ro exc fa cvo = Inr frm"
    and "n \<in> set (keys (form_fields frm))"
  shows "if truthy flds then n \<in> set (or_empty flds)
         else n \<noteq> ''id'' \<and> n \<notin> set (or_empty exc)"
proof -
  let ?exc = "Some ((if truthy exc then or_empty exc else []) @ [''id''])"
  from model_form_fields[OF assms(1)] obtain cv where
    f: "fill_field_dict cv m (or_empty fa) (select_fields m flds ?exc) [] = Inr (form_fields frm)"
    by blast
  have "set (keys (form_fields frm)) \<subseteq> fst ` set (select_fields m flds ?exc)"
    using fill_field_dict_keys_subset[OF f] by (simp add: keys_def)
  with assms(2) have n: "n \<in> fst ` set (select_fields m flds ?exc)" ..
  show ?thesis
  proof (cases "truthy flds")
    case True
    with select_fields_names(2)[OF n] show ?thesis by simp
  next
    case False
    from select_fields_names(3)[OF n False forced_exclude(1)]
    show ?thesis using False by (simp add: forced_exclude(2))
  qed
qed

lemma model_form_key_present:
  assumes "model_form m base flds ro exc fa (Some cv) = Inr frm"
    and "f \<in> set (meta_fields m)"
    and "convert cv m f (dict_get (or_empty fa) (name f)) = Inr (Some x)"
    and "if truthy flds then name f \<in> set (or_empty flds)
         else name f \<noteq> ''id'' \<and> name f \<notin> set (or_empty exc)"
  shows "name f \<in> set (keys (form_fields frm))"
proof -
  let ?exc = "Some ((if truthy exc then or_empty exc else []) @ [''id''])"
  from model_form_fields[OF assms(1)]
  have f: "fill_field_dict cv m (or_empty fa) (select_fields m flds ?exc) [] = Inr (form_fields frm)"
    by simp
  have "(name f, f) \<in> set (select_fields m flds ?exc)"
    using assms(2,4) by (intro select_fields_member) (auto simp: forced_exclude(2))
  from fill_field_dict_converted[OF f this assms(3)] show ?thesis .
qed

text \<open>
  Claim C10, as stated, fails: with an include list that names it, a field named \<open>id\<close>
  is in the form; and a primary key of another name that the caller's exclude list
  names is not.
\<close>

theorem model_form_literal_id_counterexample:
  "model_form
     \<lparr>object_name = ''Part'',
       meta_fields =
         [\<lparr>name = ''code'', ftype = ''CharField'', verbose_name = ''Code'', help_text = [],
           default_val = PyNone, blank = False, max_length = Some 8, choices = [],
           rel_to = None\<rparr>,
          \<lparr>name = ''id'', ftype = ''IntegerField'', verbose_name = ''Number'', help_text = [],
           default_val = PyNone, blank = False, max_length = None, choices = [],
           rel_to = None\<rparr>,
          \<lparr>name = ''title'', ftype = ''CharField'', verbose_name = ''Title'', help_text = [],
           default_val = PyNone, blank = True, max_length = Some 40, choices = [],
           rel_to = None\<rparr>],
       pk_name = ''code''\<rparr>
     ''Form'' (Some [''id'', ''title'']) None None None (Some (AdminModelConverter None None None)) =
   Inr \<lparr>form_name = ''PartForm'', form_bases = [''Form''],
        form_fields =
          [(''id'', \<lparr>field_class = IntegerField,
            kwargs = [(''label'', PyStr ''Number''), (''description'', PyStr []),
                      (''validators'', PyList []),
                      (''filters'', PyList []), (''default'', PyNone)]\<rparr>),
           (''title'', \<lparr>field_class = StringField,
            kwargs = [(''label'', PyStr ''Title''), (''description'', PyStr []),
                      (''validators'', PyList [PyValidator Optional, PyValidator (Length 40)]),
                      (''filters'', PyList []), (''default'', PyNone)]\<rparr>)]\<rparr> \<and>
   model_form
     \<lparr>object_name = ''Part'',
       meta_fields =
         [\<lparr>name = ''code'', ftype = ''CharField'', verbose_name = ''Code'', help_text = [],
           default_val = PyNone, blank = False, max_length = Some 8, choices = [],
           rel_to = None\<rparr>,
          \<lparr>name = ''id'', ftype = ''IntegerField'', verbose_name = ''Number'', help_text = [],
           default_val = PyNone, blank = False, max_length = None, choices = [],
           rel_to = None\<rparr>,
          \<lparr>name = ''title'', ftype = ''CharField'', verbose_name = ''Title'', help_text = [],
           default_val = PyNone, blank = True, max_length = Some 40, choices = [],
           rel_to = None\<rparr>],
       pk_name = ''code''\<rparr>
     ''Form'' None None (Some [''code'']) None (Some (AdminModelConverter None None None)) =
   Inr \<lparr>form_name = ''PartForm'', form_bases = [''Form''],
        form_fields =
          [(''title'', \<lparr>field_class = StringField,
            kwargs = [(''label'', PyStr ''Title''), (''description'', PyStr []),
                      (''validators'', PyList [PyValidator Optional, PyValidator (Length 40)]),
                      (''filters'', PyList []), (''default'', PyNone)]\<rparr>)]\<rparr>"
  by code_simp

text \<open>
  Claim C10, amended. \<open>model_form\<close> adds the literal name \<open>id\<close> to the exclude list, not
  the name of the model's primary key. So, when no include list is given, the produced
  form has no field named \<open>id\<close>, primary key or not, and it has the primary-key field of
  a model whose primary key has another name, when that field is convertible and the
  caller's own exclude list does not name it. With an include list the exclude list is
  not applied: \<open>id\<close> is in the form only if the include list names it.
\<close>

theorem model_form_excludes_literal_id:
  assumes "model_form m base flds ro exc fa (Some cv) = Inr frm"
  shows "(''id'' \<in> set (keys (form_fields frm)) \<longrightarrow> truthy flds \<and> ''id'' \<in> set (or_empty flds)) \<and>
         (f \<in> set (meta_fields m) \<and> name f = pk_name m \<and> pk_name m \<noteq> ''id'' \<and>
          convert cv m f (dict_get (or_empty fa) (name f)) = Inr (Some x) \<and>
          \<not> truthy flds \<and> pk_name m \<notin> set (or_empty exc)
          \<longrightarrow> pk_name m \<in> set (keys (form_fields frm)))"
proof (intro conjI impI)
  assume "''id'' \<in> set (keys (form_fields frm))"
  from model_form_key_selected[OF assms this]
  show "truthy flds" and "''id'' \<in> set (or_empty flds)"
    by (cases "truthy flds"; simp)+
next
  assume a: "f \<in> set (meta_fields m) \<and> name f = pk_name m \<and> pk_name m \<noteq> ''id'' \<and>
          convert cv m f (dict_get (or_empty fa) (name f)) = Inr (Some x) \<and>
          \<not> truthy flds \<and> pk_name m \<notin> set (or_empty exc)"
  then have 1: "f \<in> set (meta_fields m)"
    and 2: "convert cv m f (dict_get (or_empty fa) (name f)) = Inr (Some x)"
    by blast+
  from a have "\<not> truthy flds" and "name f \<noteq> ''id''" and "name f \<notin> set (or_empty exc)"
    by auto
  then have 3: "if truthy flds then name f \<in> set (or_empty flds)
            else name f \<noteq> ''id'' \<and> name f \<notin> set (or_empty exc)"
    by simp
  from model_form_key_present[OF assms 1 2 3] a
  show "pk_name m \<in> set (keys (form_fields frm))" by simp
qed


theorem model_form_excludes_literal_id_witness:
  "model_form
     \<lparr>object_name = ''Part'',
       meta_fields =
         [\<lparr>name = ''code'', ftype = ''CharField'', verbose_name = ''Code'', help_text = [],
           default_val = PyNone, blank = False, max_length = Some 8, choices = [],
           rel_to = None\<rparr>,
          \<lparr>name = ''id'', ftype = ''IntegerField'', verbose_name = ''Number'', help_text = [],
           default_val = PyNone, blank = False, max_length = None, choices = [],
           rel_to = None\<rparr>,
          \<lparr>name = ''title'', ftype = ''CharField'', verbose_name = ''Title'', help_text = [],
           default_val = PyNone, blank = True, max_length = Some 40, choices = [],
           rel_to = None\<rparr>],
       pk_name = ''code''\<rparr>
     ''Form'' None None None None (Some (AdminModelConverter None None None)) =
   Inr \<lparr>form_name = ''PartForm'', form_bases = [''Form''],
       form_fields =
         [(''code'', \<lparr>field_class = StringField,
            kwargs = [(''label'', PyStr ''Code''), (''description'', PyStr []),
                      (''validators'', PyList [PyValidator (Length 8)]),
                      (''filters'', PyList []), (''default'', PyNone)]\<rparr>),
          (''title'', \<lparr>field_class = StringField,
            kwargs = [(''label'', PyStr ''Title''), (''description'', PyStr []),
                      (''validators'', PyList [PyValidator Optional, PyValidator (Length 40)]),
                      (''filters'', PyList []), (''default'', PyNone)]\<rparr>)]\<rparr> \<and>
   ''id'' \<notin> set (keys (form_fields
     \<lparr>form_name = ''PartForm'', form_bases = [''Form''],
       form_fields =
         [(''code'', \<lparr>field_class = StringField,
            kwargs = [(''label'', PyStr ''Code''), (''description'', PyStr []),
                      (''validators'', PyList [PyValidator (Length 8)]),
                      (''filters'', PyList []), (''default'', PyNone)]\<rparr>),
          (''title'', \<lparr>field_class = StringField,
            kwargs = [(''label'', PyStr ''Title''), (''description'', PyStr []),
                      (''validators'', PyList [PyValidator Optional, PyValidator (Length 40)]),
                      (''filters'', PyList []), (''default'', PyNone)]\<rparr>)]\<rparr>)) \<and>
   ''code'' \<in> set (keys (form_fields
     \<lparr>form_name = ''PartForm'', form_bases = [''Form''],
       form_fields =
         [(''code'', \<lparr>field_class = StringField,
            kwargs = [(''label'', PyStr ''Code''), (''description'', PyStr []),
                      (''validators'', PyList [PyValidator (Length 8)]),
                      (''filters'', PyList []), (''default'', PyNone)]\<rparr>),
          (''title'', \<lparr>field_class = StringField,
            kwargs = [(''label'', PyStr ''Title''), (''description'', PyStr []),
                      (''validators'', PyList [PyValidator Optional, PyValidator (Length 40)]),
                      (''filters'', PyList []), (''default'', PyNone)]\<rparr>)]\<rparr>))"
proof -
  let ?m = "\<lparr>object_name = ''Part'',
       meta_fields =
         [\<lparr>name = ''code'', ftype = ''CharField'', verbose_name = ''Code'', help_text = [],
           default_val = PyNone, blank = False, max_length = Some 8, choices = [],
           rel_to = None\<rparr>,
          \<lparr>name = ''id'', ftype = ''IntegerField'', verbose_name = ''Number'', help_text = [],
           default_val = PyNone, blank = False, max_length = None, choices = [],
           rel_to = None\<rparr>,
          \<lparr>name = ''title'', ftype = ''CharField'', verbose_name = ''Title'', help_text = [],
           default_val = PyNone, blank = True, max_length = Some 40, choices = [],
           rel_to = None\<rparr>],
       pk_name = ''code''\<rparr>"
  let ?f = "\<lparr>name = ''code'', ftype = ''CharField'', verbose_name = ''Code'', help_text = [],
           default_val = PyNone, blank = False, max_length = Some 8, choices = [],
           rel_to = None\<rparr>"
  let ?x = "\<lparr>field_class = StringField,
            kwargs = [(''label'', PyStr ''Code''), (''description'', PyStr []),
                      (''validators'', PyList [PyValidator (Length 8)]),
                      (''filters'', PyList []), (''default'', PyNone)]\<rparr>"
  let ?frm = "\<lparr>form_name = ''PartForm'', form_bases = [''Form''],
       form_fields =
         [(''code'', \<lparr>field_class = StringField,
            kwargs = [(''label'', PyStr ''Code''), (''description'', PyStr []),
                      (''validators'', PyList [PyValidator (Length 8)]),
                      (''filters'', PyList []), (''default'', PyNone)]\<rparr>),
          (''title'', \<lparr>field_class = StringField,
            kwargs = [(''label'', PyStr ''Title''), (''description'', PyStr []),
                      (''validators'', PyList [PyValidator Optional, PyValidator (Length 40)]),
                      (''filters'', PyList []), (''default'', PyNone)]\<rparr>)]\<rparr>"
  have r: "model_form ?m ''Form'' None None None None (Some (AdminModelConverter None None None)) = Inr ?frm"
    by code_simp
  have c: "convert (AdminModelConverter None None None) ?m ?f
             (dict_get (or_empty None) (name ?f)) = Inr (Some ?x)"
    by code_simp
  from model_form_excludes_literal_id[OF r, of ?f ?x] c r show ?thesis
    by (simp add: truthy_def or_empty_def)
qed

section \<open>The primary key in the form\<close>

text \<open>
  Claim C1, as stated, fails: an include list that names the primary key puts it into the
  form, since the forced exclusion is part of the exclude list and the exclude list is
  not applied when an include list is given; and a primary key whose name is not \<open>id\<close>
  is not excluded at all.
\<close>

theorem model_form_primary_key_counterexample:
  "model_form
     \<lparr>object_name = ''Post'',
       meta_fields =
         [\<lparr>name = ''id'', ftype = ''AutoField'', verbose_name = ''ID'', help_text = [],
           default_val = PyNone, blank = True, max_length = None, choices = [],
           rel_to = None\<rparr>,
          \<lparr>name = ''title'', ftype = ''CharField'', verbose_name = ''Title'', help_text = [],
           default_val = PyNone, blank = False, max_length = Some 40, choices = [],
           rel_to = None\<rparr>],
       pk_name = ''id''\<rparr>
     ''BaseForm'' (Some [''id'']) None None None (Some (AdminModelConverter None None None)) =
   Inr \<lparr>form_name = ''PostForm'', form_bases = [''BaseForm''],
       form_fields =
         [(''id'', \<lparr>field_class = IntegerField,
            kwargs = [(''label'', PyStr ''ID''), (''description'', PyStr []),
                      (''validators'', PyList [PyValidator Optional]),
                      (''filters'', PyList []), (''default'', PyNone)]\<rparr>)]\<rparr> \<and>
   model_form
     \<lparr>object_name = ''Item'',
       meta_fields =
         [\<lparr>name = ''sku'', ftype = ''CharField'', verbose_name = ''SKU'', help_text = [],
           default_val = PyNone, blank = False, max_length = Some 12, choices = [],
           rel_to = None\<rparr>,
          \<lparr>name = ''title'', ftype = ''CharField'', verbose_name = ''Title'', help_text = [],
           default_val = PyNone, blank = False, max_length = Some 40, choices = [],
           rel_to = None\<rparr>],
       pk_name = ''sku''\<rparr>
     ''BaseForm'' None None None None (Some (AdminModelConverter None None None)) =
   Inr \<lparr>form_name = ''ItemForm'', form_bases = [''BaseForm''],
       form_fields =
         [(''sku'', \<lparr>field_class = StringField,
            kwargs = [(''label'', PyStr ''SKU''), (''description'', PyStr []),
                      (''validators'', PyList [PyValidator (Length 12)]),
                      (''filters'', PyList []), (''default'', PyNone)]\<rparr>),
          (''title'', \<lparr>field_class = StringField,
            kwargs = [(''label'', PyStr ''Title''), (''description'', PyStr []),
                      (''validators'', PyList [PyValidator (Length 40)]),
                      (''filters'', PyList []), (''default'', PyNone)]\<rparr>)]\<rparr>"
  by code_simp

text \<open>
  Claim C1, amended. For a model whose primary key is named \<open>id\<close>, the field mapping of
  a form produced by \<open>model_form\<close> contains the primary key's name only if the caller's
  include list names it; without an include list it never does.
\<close>

theorem form_primary_key_named_id:
  assumes "pk_name m = ''id''"
  shows "model_form m base flds ro exc fa cvo = Inr frm \<and>
         pk_name m \<in> set (keys (form_fields frm))
         \<longrightarrow> truthy flds \<and> pk_name m \<in> set (or_empty flds)"
proof (intro conjI impI)
  assume a: "model_form m base flds ro exc fa cvo = Inr frm \<and>
          pk_name m \<in> set (keys (form_fields frm))"
  then have "model_form m base flds ro exc fa cvo = Inr frm"
    and "''id'' \<in> set (keys (form_fields frm))" using assms by simp_all
  from model_form_key_selected[OF this]
  show "truthy flds" and "pk_name m \<in> set (or_empty flds)"
    using assms by (cases "truthy flds"; simp)+
qed

theorem form_primary_key_named_id_witness:
  "model_form
     \<lparr>object_name = ''Post'',
       meta_fields =
         [\<lparr>name = ''id'', ftype = ''AutoField'', verbose_name = ''ID'', help_text = [],
           default_val = PyNone, blank = True, max_length = None, choices = [],
           rel_to = None\<rparr>,
          \<lparr>name = ''title'', ftype = ''CharField'', verbose_name = ''Title'', help_text = [],
           default_val = PyNone, blank = False, max_length = Some 40, choices = [],
           rel_to = None\<rparr>],
       pk_name = ''id''\<rparr>
     ''BaseForm'' None None None None (Some (AdminModelConverter None None None)) =
   Inr \<lparr>form_name = ''PostForm'', form_bases = [''BaseForm''],
       form_fields =
         [(''title'', \<lparr>field_class = StringField,
            kwargs = [(''label'', PyStr ''Title''), (''description'', PyStr []),
                      (''validators'', PyList [PyValidator (Length 40)]),
                      (''filters'', PyList []), (''default'', PyNone)]\<rparr>)]\<rparr> \<and>
   ''id'' \<notin> set (keys (form_fields
     \<lparr>form_name = ''PostForm'', form_bases = [''BaseForm''],
       form_fields =
         [(''title'', \<lparr>field_class = StringField,
            kwargs = [(''label'', PyStr ''Title''), (''description'', PyStr []),
                      (''validators'', PyList [PyValidator (Length 40)]),
                      (''filters'', PyList []), (''default'', PyNone)]\<rparr>)]\<rparr>))"
proof -
  let ?m = "\<lparr>object_name = ''Post'',
       meta_fields =
         [\<lparr>name = ''id'', ftype = ''AutoField'', verbose_name = ''ID'', help_text = [],
           default_val = PyNone, blank = True, max_length = None, choices = [],
           rel_to = None\<rparr>,
          \<lparr>name = ''title'', ftype = ''CharField'', verbose_name = ''Title'', help_text = [],
           default_val = PyNone, blank = False, max_length = Some 40, choices = [],
           rel_to = None\<rparr>],
       pk_name = ''id''\<rparr>"
  let ?frm = "\<lparr>form_name = ''PostForm'', form_bases = [''BaseForm''],
       form_fields =
         [(''title'', \<lparr>field_class = StringField,
            kwargs = [(''label'', PyStr ''Title''), (''description'', PyStr []),
                      (''validators'', PyList [PyValidator (Length 40)]),
                      (''filters'', PyList []), (''default'', PyNone)]\<rparr>)]\<rparr>"
  have r: "model_form ?m ''BaseForm'' None None None None
             (Some (AdminModelConverter None None None)) = Inr ?frm"
    by code_simp
  have p: "pk_name ?m = ''id''" by simp
  from form_primary_key_named_id[OF p, of "''BaseForm''" None None None None
      "Some (AdminModelConverter None None None)" ?frm] r
  show ?thesis by (simp add: truthy_def)
qed

section \<open>Listing: count and pagination\<close>

lemma get_list_parts:
  "fst (get_list self ex) = int (length (objects self))"
  "qs_docs (snd (get_list self ex)) = objects self"
  "qs_skip (snd (get_list self ex)) = map_option (\<lambda>p. p * list_per_page self) (page self)"
  "qs_limit (snd (get_list self ex)) = Some (list_per_page self)"
  "qs_order_by (snd (get_list self ex)) =
     (if truthy (fst (sort self))
      then Some ((if snd (sort self) then ''-'' else []) @ or_empty (fst (sort self)))
      else None)"
  by (auto simp: get_list_def Let_def count_def order_by_def skip_def limit_def all_docs_def
      split: prod.splits option.splits)

lemma ordered_docs_get_list:
  "ordered_docs engine_sort (snd (get_list self ex)) =
     (if truthy (fst (sort self))
      then engine_sort ((if snd (sort self) then ''-'' else []) @ or_empty (fst (sort self))) (objects self)
      else objects self)"
  by (simp add: ordered_docs_def get_list_parts)

lemma drop_as_nth: "drop n xs = map (\<lambda>i. xs ! i) [n..<length xs]"
  by (intro nth_equalityI) simp_all




text \<open>
  Claim C3. The count that \<open>get_list\<close> returns is the number of all documents of the
  collection, whatever the page index and the page size are. With page size 10, 25 rows
  and page index 2, the rows are rows 20 to 24 of the ordered set (skip 20, limit 10,
  five remain) and the count is 25.
\<close>

theorem get_list_total_count:
  "fst (get_list self ex) = int (length (objects self)) \<and>
   (length (objects self) = 25 \<and> page self = Some 2 \<and> list_per_page self = 10 \<and>
    length (ordered_docs engine_sort (snd (get_list self ex))) = 25
    \<longrightarrow> fst (get_list self ex) = 25 \<and>
        qs_skip (snd (get_list self ex)) = Some 20 \<and>
        qs_limit (snd (get_list self ex)) = Some 10 \<and>
        rows engine_sort (snd (get_list self ex)) =
          map (\<lambda>i. ordered_docs engine_sort (snd (get_list self ex)) ! i) [20..<25])"
proof (intro conjI impI)
  show "fst (get_list self ex) = int (length (objects self))" by (rule get_list_parts(1))
next
  assume a: "length (objects self) = 25 \<and> page self = Some 2 \<and> list_per_page self = 10 \<and>
    length (ordered_docs engine_sort (snd (get_list self ex))) = 25"
  let ?xs = "ordered_docs engine_sort (snd (get_list self ex))"
  from a show "fst (get_list self ex) = 25" by (simp add: get_list_parts(1))
  from a show "qs_skip (snd (get_list self ex)) = Some 20" by (simp add: get_list_parts(3))
  from a show "qs_limit (snd (get_list self ex)) = Some 10" by (simp add: get_list_parts(4))
  from a have len: "length ?xs = 25" by simp
  from a have "rows engine_sort (snd (get_list self ex)) = take 10 (drop 20 ?xs)"
    by (simp add: rows_def Let_def get_list_parts(3,4))
  also have "\<dots> = drop 20 ?xs" using len by simp
  also have "\<dots> = map (\<lambda>i. ?xs ! i) [20..<25]"
    using drop_as_nth[of 20 ?xs] by (simp only: len)
  finally show "rows engine_sort (snd (get_list self ex)) = map (\<lambda>i. ?xs ! i) [20..<25]" .
qed

theorem get_list_total_count_witness:
  "fst (get_list
     \<lparr>admin_model = \<lparr>object_name = ''Post'', meta_fields = [], pk_name = ''id''\<rparr>,
      objects = map (\<lambda>n. \<lparr>doc_id = ''d'', doc_data = n\<rparr>) [0..<25],
      only = None, exclude = None, field_args = None, list_display = None,
      sort = (Some ''title'', True), page = Some 2, list_per_page = 10\<rparr> False) = 25 \<and>
   rows (\<lambda>key xs. if key = ''-title'' then rev xs else xs) (snd (get_list
     \<lparr>admin_model = \<lparr>object_name = ''Post'', meta_fields = [], pk_name = ''id''\<rparr>,
      objects = map (\<lambda>n. \<lparr>doc_id = ''d'', doc_data = n\<rparr>) [0..<25],
      only = None, exclude = None, field_args = None, list_display = None,
      sort = (Some ''title'', True), page = Some 2, list_per_page = 10\<rparr> False)) =
   map (\<lambda>n. \<lparr>doc_id = ''d'', doc_data = n\<rparr>) [4, 3, 2, 1, 0 :: nat]"
proof -
  let ?adm = "\<lparr>admin_model = \<lparr>object_name = ''Post'', meta_fields = [], pk_name = ''id''\<rparr>,
      objects = map (\<lambda>n. \<lparr>doc_id = ''d'', doc_data = n\<rparr>) [0..<25 :: nat],
      only = None, exclude = None, field_args = None, list_display = None,
      sort = (Some ''title'', True), page = Some 2, list_per_page = 10\<rparr>"
  let ?srt = "\<lambda>key (xs :: nat document list). if key = ''-title'' then rev xs else xs"
  have o: "ordered_docs ?srt (snd (get_list ?adm False)) =
           rev (map (\<lambda>n. \<lparr>doc_id = ''d'', doc_data = n\<rparr>) [0..<25])"
    by (simp add: ordered_docs_get_list truthy_def or_empty_def)
  have n: "map (\<lambda>i. rev (map (\<lambda>n. \<lparr>doc_id = ''d'', doc_data = n\<rparr>) [0..<25 :: nat]) ! i) [20..<25] =
           map (\<lambda>n. \<lparr>doc_id = ''d'', doc_data = n\<rparr>) [4, 3, 2, 1, 0 :: nat]"
    by code_simp
  from get_list_total_count[of ?adm False ?srt] show ?thesis
    unfolding o n by simp
qed

section \<open>Deleting and detecting\<close>

lemma fold_delete:
  "fold delete objs docs = filter (\<lambda>d. doc_id d \<notin> doc_id ` set objs) docs"
proof (induction objs arbitrary: docs)
  case Nil
  then show ?case by simp
next
  case (Cons obj objs)
  have "fold delete (obj # objs) docs = fold delete objs (delete obj docs)" by simp
  also have "\<dots> = filter (\<lambda>d. doc_id d \<notin> doc_id ` set objs) (delete obj docs)"
    by (rule Cons.IH)
  also have "\<dots> = filter (\<lambda>d. doc_id d \<notin> doc_id ` set (obj # objs)) docs"
    by (auto simp: delete_def intro: filter_cong)
  finally show ?case .
qed

lemma delete_in_bulk:
  "fold delete (in_bulk docs ids) docs = filter (\<lambda>d. doc_id d \<notin> set ids) docs"
  unfolding fold_delete in_bulk_def by (rule filter_cong) auto

lemma object_ids_all:
  "object_ids pks =
     (if list_all (\<lambda>pk. length pk = 24 \<and> list_all is_hex pk) pks
      then Inr (map (map lower_hex) pks) else Inl InvalidId)"
  by (induction pks) (auto simp: ObjectId_def)

text \<open>
  Claim C5, as stated, fails: a key that is no identifier names no document either, and
  it is not skipped: the call raises InvalidId before anything is deleted, so the
  existing target stays.
\<close>

theorem delete_models_malformed_counterexample:
  "delete_models
     \<lparr>admin_model = \<lparr>object_name = ''Post'', meta_fields = [], pk_name = ''id''\<rparr>,
      objects = [\<lparr>doc_id = ''5f1d7f0a9c3b2a0001000001'', doc_data = ()\<rparr>],
      only = None, exclude = None, field_args = None, list_display = None,
      sort = (None, False), page = None, list_per_page = 20\<rparr>
     [''missing'', ''5f1d7f0a9c3b2a0001000001''] = Inl InvalidId"
  by code_simp

text \<open>
  Claim C5, amended. When every key is an identifier (24 hexadecimal digits),
  \<open>delete_models\<close> called with a mix of nonexistent and existing keys deletes every
  existing target, skips the nonexistent ones without raising, keeps every other
  document and returns true.
\<close>

theorem delete_models_tolerates_missing:
  assumes "list_all (\<lambda>pk. length pk = 24 \<and> list_all is_hex pk) pks"
  shows "delete_models self pks =
         Inr (True, self\<lparr>objects :=
                filter (\<lambda>d. doc_id d \<notin> set (map (map lower_hex) pks)) (objects self)\<rparr>)"
  using assms by (simp add: delete_models_def get_objects_def object_ids_all delete_in_bulk)

theorem delete_models_tolerates_missing_witness:
  "delete_models
     \<lparr>admin_model = \<lparr>object_name = ''Post'', meta_fields = [], pk_name = ''id''\<rparr>,
      objects = [\<lparr>doc_id = ''5f1d7f0a9c3b2a0001000001'', doc_data = ()\<rparr>,
                 \<lparr>doc_id = ''5f1d7f0a9c3b2a0001000002'', doc_data = ()\<rparr>,
                 \<lparr>doc_id = ''5f1d7f0a9c3b2a0001000003'', doc_data = ()\<rparr>],
      only = None, exclude = None, field_args = None, list_display = None,
      sort = (None, False), page = None, list_per_page = 20\<rparr>
     [''ffffffffffffffffffffffff'', ''5F1D7F0A9C3B2A0001000002''] =
   Inr (True,
     \<lparr>admin_model = \<lparr>object_name = ''Post'', meta_fields = [], pk_name = ''id''\<rparr>,
      objects = [\<lparr>doc_id = ''5f1d7f0a9c3b2a0001000001'', doc_data = ()\<rparr>,
                 \<lparr>doc_id = ''5f1d7f0a9c3b2a0001000003'', doc_data = ()\<rparr>],
      only = None, exclude = None, field_args = None, list_display = None,
      sort = (None, False), page = None, list_per_page = 20\<rparr>)"
proof -
  let ?adm = "\<lparr>admin_model = \<lparr>object_name = ''Post'', meta_fields = [], pk_name = ''id''\<rparr>,
      objects = [\<lparr>doc_id = ''5f1d7f0a9c3b2a0001000001'', doc_data = ()\<rparr>,
                 \<lparr>doc_id = ''5f1d7f0a9c3b2a0001000002'', doc_data = ()\<rparr>,
                 \<lparr>doc_id = ''5f1d7f0a9c3b2a0001000003'', doc_data = ()\<rparr>],
      only = None, exclude = None, field_args = None, list_display = None,
      sort = (None, False), page = None, list_per_page = 20\<rparr>"
  let ?pks = "[''ffffffffffffffffffffffff'', ''5F1D7F0A9C3B2A0001000002'']"
  have v: "list_all (\<lambda>pk. length pk = 24 \<and> list_all is_hex pk) ?pks"
    by code_simp
  have l: "map (map lower_hex) ?pks = [''ffffffffffffffffffffffff'', ''5f1d7f0a9c3b2a0001000002'']"
    by code_simp
  from delete_models_tolerates_missing[OF v, of ?adm]
  show ?thesis unfolding l by simp
qed

text \<open>
  Claim C6, as stated, fails: a candidate that is not a class makes \<open>issubclass\<close> raise
  TypeError.
\<close>

theorem model_detect_counterexample:
  "model_detect (PyInstance ''post'') = Inl TypeError"
  by (simp add: model_detect_def)

text \<open>
  Claim C6, amended. For every candidate that is a class, \<open>model_detect\<close> returns without
  raising, and returns true exactly when the document base class is among the classes
  the candidate derives from; it reads nothing but its argument.
\<close>

theorem model_detect_class:
  "model_detect (PyClass mro) = Inr (''mongoengine.Document'' \<in> set mro)"
  by (simp add: model_detect_def)

section \<open>Forms that are produced\<close>

text \<open>
  Without arguments from the caller the admin converter does not raise, except on a
  relation field that carries no relation.
\<close>

lemma keys_dict_set_old: "k \<in> set (keys d) \<Longrightarrow> keys (dict_set k v d) = keys d"
proof (induction d)
  case Nil
  then show ?case by (simp add: keys_def)
next
  case (Cons a d)
  obtain k' v' where a: "a = (k', v')" by (cases a)
  show ?case
  proof (cases "k = k'")
    case True
    then show ?thesis by (simp add: a keys_def)
  next
    case False
    with Cons.prems have "k \<in> set (keys d)" by (simp add: a keys_def)
    from Cons.IH[OF this] False show ?thesis by (simp add: a keys_def)
  qed
qed

lemma append_to_keys_list:
  assumes "append_to key v kw = Inr kw'"
  shows "keys kw' = keys kw"
proof -
  from assms obtain xs where g: "dict_get kw key = Some (PyList xs)"
    and kw': "kw' = dict_set key (PyList (xs @ [v])) kw"
    by (auto simp: append_to_def split: option.splits pyval.splits)
  from g have "key \<in> set (keys kw)" using dict_get_None_iff[of kw key] by simp
  then show ?thesis by (simp add: kw' keys_dict_set_old)
qed

lemma call_field_base:
  assumes "keys kw = [''label'', ''description'', ''validators'', ''filters'', ''default'']"
    and "list_all (\<lambda>k. k \<notin> set [''label'', ''description'', ''validators'', ''filters'', ''default''])
           (keys explicit)"
  shows "\<exists>r. call_field cls explicit kw = Inr r"
  using assms by (auto simp: call_field_def list_ex_iff list_all_iff)

lemma convert_kwargs_default:
  "\<exists>kw vs. convert cv m fld None = dispatch cv m fld kw \<and>
     keys kw = [''label'', ''description'', ''validators'', ''filters'', ''default''] \<and>
     dict_get kw ''validators'' = Some (PyList vs) \<and>
     dict_get kw ''filters'' = Some (PyList [])"
proof -
  let ?kw0 = "with_field_args (base_kwargs fld) None"
  have k0: "keys ?kw0 = [''label'', ''description'', ''validators'', ''filters'', ''default'']"
    by (simp add: with_field_args_def base_kwargs_def keys_def)
  have v0: "dict_get ?kw0 ''validators'' = Some (PyList [])"
    and f0: "dict_get ?kw0 ''filters'' = Some (PyList [])"
    by (simp_all add: with_field_args_def base_kwargs_def dict_get_def)
  obtain kw1 where kw1: "add_optional fld ?kw0 = Inr kw1"
    using add_optional_total[OF v0] by blast
  have v1: "dict_get kw1 ''validators'' =
            Some (PyList ([] @ (if blank fld then [PyValidator Optional] else [])))"
    by (rule add_optional_list[OF v0 kw1])
  have f1: "dict_get kw1 ''filters'' = Some (PyList [])"
    using kw1 f0 by (auto simp: add_optional_def append_to_get split: if_splits)
  have k1: "keys kw1 = keys ?kw0"
    using kw1 by (auto simp: add_optional_def split: if_splits dest: append_to_keys_list)
  obtain kw2 where kw2: "add_length fld kw1 = Inr kw2"
    using add_length_total[OF v1] by blast
  obtain ws where v2: "dict_get kw2 ''validators'' =
      Some (PyList (([] @ (if blank fld then [PyValidator Optional] else [])) @ ws))"
    using add_length_list[OF v1 kw2] by blast
  have f2: "dict_get kw2 ''filters'' = Some (PyList [])"
    using kw2 f1 by (auto simp: add_length_def append_to_get split: if_splits option.splits)
  have k2: "keys kw2 = keys kw1"
    using kw2 by (auto simp: add_length_def split: if_splits option.splits dest: append_to_keys_list)
  have "convert cv m fld None = dispatch cv m fld kw2"
    by (simp add: convert_def kw1 kw2)
  moreover have "keys kw2 = [''label'', ''description'', ''validators'', ''filters'', ''default'']"
    by (simp only: k2 k1 k0)
  ultimately show ?thesis using v2 f2 by blast
qed


lemma admin_method_total:
  assumes "admin_conv_methods us t = Some c"
    and "keys kw = [''label'', ''description'', ''validators'', ''filters'', ''default'']"
    and "dict_get kw ''validators'' = Some (PyList vs)"
    and "dict_get kw ''filters'' = Some (PyList fs)"
    and "t = ''ForeignKey'' \<longrightarrow> rel_to fld \<noteq> None"
  shows "\<exists>r. c m fld kw = Inr r"
proof -
  consider "t = ''ForeignKey''" "c = conv_ForeignKey" | "c = conv_TimeField"
    | "c = conv_DateTimeField"
    | "c = conv_DateField" | "c = conv_EmailField" | "c = conv_IPAddressField"
    | "c = conv_URLField" | "c = conv_USStateField us" | "c = conv_NullBooleanField"
    using assms(1) by (auto simp: admin_conv_methods_def split: if_splits)
  then show ?thesis
  proof cases
    case 1
    with assms(5) obtain rt where rt: "rel_to fld = Some rt" by auto
    have "\<exists>r. call_field ModelSelectField
            [(''widget'', PyWidget ChosenSelectWidget), (''model'', PyModel rt)] kw = Inr r"
      by (rule call_field_base[OF assms(2)]) (simp add: keys_def)
    then show ?thesis by (simp add: 1 conv_ForeignKey_def rt)
  next
    case 2
    obtain kw' where a: "append_to ''filters'' (PyFilter TimeOnly) kw = Inr kw'"
      using append_to_list[OF assms(4)] by blast
    have k: "keys kw' = [''label'', ''description'', ''validators'', ''filters'', ''default'']"
      using append_to_keys_list[OF a] assms(2) by simp
    have "\<exists>r. call_field DateTimeField
            [(''widget'', PyWidget DateTimePickerWidget), (''format'', PyStr ''%H:%M:%S'')] kw' = Inr r"
      by (rule call_field_base[OF k]) (simp add: keys_def)
    then show ?thesis by (simp add: 2 conv_TimeField_def a)
  next
    case 3
    obtain kw' where a: "append_to ''filters'' (PyFilter TimeOnly) kw = Inr kw'"
      using append_to_list[OF assms(4)] by blast
    have k: "keys kw' = [''label'', ''description'', ''validators'', ''filters'', ''default'']"
      using append_to_keys_list[OF a] assms(2) by simp
    have "\<exists>r. call_field DateTimeField
            [(''widget'', PyWidget DateTimePickerWidget), (''format'', PyStr ''%H:%M:%S'')] kw' = Inr r"
      by (rule call_field_base[OF k]) (simp add: keys_def)
    then show ?thesis by (simp add: 3 conv_DateTimeField_def a)
  next
    case 4
    obtain kw' where a: "append_to ''filters'' (PyFilter DateOnly) kw = Inr kw'"
      using append_to_list[OF assms(4)] by blast
    have k: "keys kw' = [''label'', ''description'', ''validators'', ''filters'', ''default'']"
      using append_to_keys_list[OF a] assms(2) by simp
    have "\<exists>r. call_field DateField
            [(''widget'', PyWidget DatePickerWidget)] kw' = Inr r"
      by (rule call_field_base[OF k]) (simp add: keys_def)
    then show ?thesis by (simp add: 4 conv_DateField_def a)
  next
    case 5
    obtain kw' where a: "append_to ''validators'' (PyValidator Email) kw = Inr kw'"
      using append_to_list[OF assms(3)] by blast
    have k: "keys kw' = [''label'', ''description'', ''validators'', ''filters'', ''default'']"
      using append_to_keys_list[OF a] assms(2) by simp
    have "\<exists>r. call_field StringField [] kw' = Inr r"
      by (rule call_field_base[OF k]) (simp add: keys_def)
    then show ?thesis by (simp add: 5 conv_EmailField_def a)
  next
    case 6
    obtain kw' where a: "append_to ''validators'' (PyValidator IPAddress) kw = Inr kw'"
      using append_to_list[OF assms(3)] by blast
    have k: "keys kw' = [''label'', ''description'', ''validators'', ''filters'', ''default'']"
      using append_to_keys_list[OF a] assms(2) by simp
    have "\<exists>r. call_field StringField [] kw' = Inr r"
      by (rule call_field_base[OF k]) (simp add: keys_def)
    then show ?thesis by (simp add: 6 conv_IPAddressField_def a)
  next
    case 7
    obtain kw' where a: "append_to ''validators'' (PyValidator URL) kw = Inr kw'"
      using append_to_list[OF assms(3)] by blast
    have k: "keys kw' = [''label'', ''description'', ''validators'', ''filters'', ''default'']"
      using append_to_keys_list[OF a] assms(2) by simp
    have "\<exists>r. call_field StringField [] kw' = Inr r"
      by (rule call_field_base[OF k]) (simp add: keys_def)
    then show ?thesis by (simp add: 7 conv_URLField_def a)
  next
    case 8
    have "\<exists>r. call_field SelectField
            [(''choices'', choices_val (case us of None \<Rightarrow> [] | Some cs \<Rightarrow> cs))] kw = Inr r"
      by (rule call_field_base[OF assms(2)]) (simp add: keys_def)
    then show ?thesis by (simp add: 8 conv_USStateField_def)
  next
    case 9
    have "\<exists>r. call_field SelectField
       [(''choices'', PyTuple [PyTuple [PyNone, PyStr ''Unknown''],
                               PyTuple [PyBool True, PyStr ''Yes''],
                               PyTuple [PyBool False, PyStr ''No'']]),
        (''coerce'', PyFunc ''coerce_nullbool'')] kw = Inr r"
      by (rule call_field_base[OF assms(2)]) (simp add: keys_def)
    then show ?thesis by (simp add: 9 conv_NullBooleanField_def)
  qed
qed


lemma convert_admin_total:
  assumes "ftype fld = ''ForeignKey'' \<longrightarrow> rel_to fld \<noteq> None"
  shows "\<exists>r. convert (AdminModelConverter us None sc) m fld None = Inr r"
proof -
  let ?cv = "AdminModelConverter us None sc"
  obtain kw vs where c: "convert ?cv m fld None = dispatch ?cv m fld kw"
    and k: "keys kw = [''label'', ''description'', ''validators'', ''filters'', ''default'']"
    and v: "dict_get kw ''validators'' = Some (PyList vs)"
    and f: "dict_get kw ''filters'' = Some (PyList [])"
    using convert_kwargs_default by blast
  show ?thesis
  proof (cases "choices fld \<noteq> []")
    case True
    let ?kw = "dict_set ''choices'' (choices_val (choices fld)) kw"
    have "''widget'' \<notin> set (keys ?kw)" by (simp add: keys_dict_set k)
    then have "set (keys [(''widget'', PyWidget ChosenSelectWidget)]) \<inter> set (keys ?kw) = {}"
      by (simp add: keys_def)
    from call_field_ok[OF this] show ?thesis using True by (simp add: c dispatch_def)
  next
    case False
    show ?thesis
    proof (cases "dict_get (converters ?cv) (ftype fld)")
      case (Some cf)
      then obtain ft where ft: "cf = make_simple_converter ft"
        using admin_table_simple by blast
      have "\<exists>r. call_field ft [] kw = Inr r"
        by (rule call_field_base[OF k]) (simp add: keys_def)
      then show ?thesis
        using False Some by (simp add: c dispatch_def ft make_simple_converter_def)
    next
      case None
      show ?thesis
      proof (cases "conv_methods ?cv (ftype fld)")
        case None': None
        with None False show ?thesis by (simp add: c dispatch_def)
      next
        case (Some cf)
        then have "admin_conv_methods us (ftype fld) = Some cf"
          by (simp add: AdminModelConverter_def Let_def)
        from admin_method_total[OF this k v f assms]
        show ?thesis using None False Some by (simp add: c dispatch_def)
      qed
    qed
  qed
qed

lemma fill_field_dict_total:
  assumes "\<forall>x \<in> set xs. \<exists>r. convert cv m (snd x) (dict_get fa (fst x)) = Inr r"
  shows "\<exists>d'. fill_field_dict cv m fa xs d = Inr d'"
  using assms
proof (induction cv m fa xs d rule: fill_field_dict.induct)
  case (1 cv m fa d)
  then show ?case by simp
next
  case (2 cv m fa nm model_field rest d)
  from "2.prems" obtain r where r: "convert cv m model_field (dict_get fa nm) = Inr r"
    by auto
  from "2.prems" have rest: "\<forall>x \<in> set rest. \<exists>r. convert cv m (snd x) (dict_get fa (fst x)) = Inr r"
    by simp
  show ?case
  proof (cases r)
    case None
    from "2.IH"(1)[OF r None rest] show ?thesis using r None by simp
  next
    case (Some fld)
    from "2.IH"(2)[OF r Some rest] show ?thesis using r Some by simp
  qed
qed

lemma model_form_admin_total:
  assumes "\<forall>f \<in> set (meta_fields m). ftype f = ''ForeignKey'' \<longrightarrow> rel_to f \<noteq> None"
  shows "\<exists>frm. model_form m base flds ro exc None (Some (AdminModelConverter us None sc)) = Inr frm"
proof -
  let ?cv = "AdminModelConverter us None sc"
  let ?xs = "select_fields m flds (Some ((if truthy exc then or_empty exc else []) @ [''id'']))"
  have "\<forall>x \<in> set ?xs. \<exists>r. convert ?cv m (snd x) (dict_get (or_empty None) (fst x)) = Inr r"
  proof
    fix x assume "x \<in> set ?xs"
    then have "snd x \<in> set (meta_fields m)"
      by (auto simp: select_fields_def Let_def split: if_splits)
    with assms have "ftype (snd x) = ''ForeignKey'' \<longrightarrow> rel_to (snd x) \<noteq> None" by blast
    from convert_admin_total[OF this]
    show "\<exists>r. convert ?cv m (snd x) (dict_get (or_empty None) (fst x)) = Inr r"
      by (simp add: or_empty_def dict_get_def)
  qed
  from fill_field_dict_total[OF this] obtain d where
    "fill_field_dict ?cv m (or_empty None) ?xs [] = Inr d" by blast
  then show ?thesis
    by (simp add: model_form_def model_fields_def Let_def)
qed

end
